theory Spec2Isabelle
  imports Complex_Main
begin

section \<open>Python values\<close>

text \<open>
  The enumerations of \<^verbatim>\<open>fluent_control_automation.py\<close>. Each member has an identifier
  (the constructor) and a declared string value (\<^verbatim>\<open>.value\<close>).
\<close>

datatype LabwareType =
    MICROPLATE_96 | MICROPLATE_384 | TUBE_RACK_24 | TUBE_RACK_48 | TUBE_RACK_96
  | RESERVOIR | TIP_RACK_96 | TIP_RACK_384 | ADAPTER_PLATE | CUSTOM

fun LabwareType_value :: "LabwareType \<Rightarrow> string" where
  "LabwareType_value MICROPLATE_96 = ''96-well microplate''"
| "LabwareType_value MICROPLATE_384 = ''384-well microplate''"
| "LabwareType_value TUBE_RACK_24 = ''24-tube rack''"
| "LabwareType_value TUBE_RACK_48 = ''48-tube rack''"
| "LabwareType_value TUBE_RACK_96 = ''96-tube rack''"
| "LabwareType_value RESERVOIR = ''reservoir''"
| "LabwareType_value TIP_RACK_96 = ''96-tip rack''"
| "LabwareType_value TIP_RACK_384 = ''384-tip rack''"
| "LabwareType_value ADAPTER_PLATE = ''adapter plate''"
| "LabwareType_value CUSTOM = ''custom''"

datatype PositionStatus = EMPTY | OCCUPIED | RESERVED | ERROR

fun PositionStatus_value :: "PositionStatus \<Rightarrow> string" where
  "PositionStatus_value EMPTY = ''empty''"
| "PositionStatus_value OCCUPIED = ''occupied''"
| "PositionStatus_value RESERVED = ''reserved''"
| "PositionStatus_value ERROR = ''error''"

text \<open>
  The Python values that occur in request payloads and in parsed JSON responses. A dict
  is an association list in insertion order. A float is modelled by the real number it
  denotes (NaN and the infinities are left out). The last two constructors are enum
  \<^emph>\<open>objects\<close>: \<^verbatim>\<open>dataclasses.asdict\<close> copies an enum member as it is, it does not
  replace it by its \<^verbatim>\<open>.value\<close>.
\<close>

datatype pyval =
    PNone
  | PBool bool
  | PInt int
  | PFloat real
  | PStr string
  | PList "pyval list"
  | PDict "(string \<times> pyval) list"
  | PLabwareType LabwareType
  | PPositionStatus PositionStatus

text \<open>Truthiness, as \<^verbatim>\<open>if x:\<close> tests it.\<close>

fun py_truthy :: "pyval \<Rightarrow> bool" where
  "py_truthy PNone = False"
| "py_truthy (PBool b) = b"
| "py_truthy (PInt i) = (i \<noteq> 0)"
| "py_truthy (PFloat x) = (x \<noteq> 0)"
| "py_truthy (PStr s) = (s \<noteq> [])"
| "py_truthy (PList xs) = (xs \<noteq> [])"
| "py_truthy (PDict kvs) = (kvs \<noteq> [])"
| "py_truthy (PLabwareType _) = True"
| "py_truthy (PPositionStatus _) = True"

text \<open>
  \<^verbatim>\<open>json.dumps\<close> encodes None, booleans, numbers, strings, lists and dicts with string
  keys; on any other object (here: an enum member) it raises TypeError.
\<close>

fun json_serializable :: "pyval \<Rightarrow> bool" where
  "json_serializable (PList xs) = list_all json_serializable xs"
| "json_serializable (PDict kvs) = list_all json_serializable (map snd kvs)"
| "json_serializable (PLabwareType _) = False"
| "json_serializable (PPositionStatus _) = False"
| "json_serializable _ = True"

text \<open>\<^verbatim>\<open>str(n)\<close> for an integer: its decimal digits, with a minus sign when negative.\<close>

fun str_nat :: "nat \<Rightarrow> string" where
  "str_nat n =
     (if n < 10 then [''0123456789'' ! n]
      else str_nat (n div 10) @ [''0123456789'' ! (n mod 10)])"

definition str_int :: "int \<Rightarrow> string" where
  "str_int i = (if i < 0 then CHR ''-'' # str_nat (nat (- i)) else str_nat (nat i))"

text \<open>\<^verbatim>\<open>int(x)\<close> for a float: truncation towards zero.\<close>

definition py_int_of_float :: "real \<Rightarrow> int" where
  "py_int_of_float x = (if 0 \<le> x then \<lfloor>x\<rfloor> else \<lceil>x\<rceil>)"

section \<open>Data classes\<close>

record LabwarePosition =
  position_id :: string
  labware_type :: LabwareType
  barcode :: "string option"
  status :: PositionStatus
  description :: "string option"
  custom_properties :: "(string \<times> pyval) list option"

record TransferParameters =
  source_position :: string
  destination_position :: string
  volume_ul :: real
  liquid_class :: string
  tip_type :: string
  aspiration_speed :: "real option"
  dispense_speed :: "real option"
  air_gap :: "real option"
  touch_off :: "bool option"
  mix_cycles :: "int option"
  mix_volume :: "real option"
  blow_out :: "bool option"
  retract_distance :: "real option"

text \<open>An optional field holds None when it is unset.\<close>

definition opt_val :: "('a \<Rightarrow> pyval) \<Rightarrow> 'a option \<Rightarrow> pyval" where
  "opt_val f x = (case x of None \<Rightarrow> PNone | Some v \<Rightarrow> f v)"

text \<open>
  \<^verbatim>\<open>dataclasses.asdict\<close>: one entry per field, in declaration order. Strings, numbers,
  booleans, None and enum members are copied unchanged; a dict is copied entry by entry.
\<close>

definition asdict_LabwarePosition :: "LabwarePosition \<Rightarrow> pyval" where
  "asdict_LabwarePosition pos = PDict
     [(''position_id'', PStr (position_id pos)),
      (''labware_type'', PLabwareType (labware_type pos)),
      (''barcode'', opt_val PStr (barcode pos)),
      (''status'', PPositionStatus (status pos)),
      (''description'', opt_val PStr (description pos)),
      (''custom_properties'', opt_val PDict (custom_properties pos))]"

definition asdict_TransferParameters :: "TransferParameters \<Rightarrow> pyval" where
  "asdict_TransferParameters t = PDict
     [(''source_position'', PStr (source_position t)),
      (''destination_position'', PStr (destination_position t)),
      (''volume_ul'', PFloat (volume_ul t)),
      (''liquid_class'', PStr (liquid_class t)),
      (''tip_type'', PStr (tip_type t)),
      (''aspiration_speed'', opt_val PFloat (aspiration_speed t)),
      (''dispense_speed'', opt_val PFloat (dispense_speed t)),
      (''air_gap'', opt_val PFloat (air_gap t)),
      (''touch_off'', opt_val PBool (touch_off t)),
      (''mix_cycles'', opt_val PInt (mix_cycles t)),
      (''mix_volume'', opt_val PFloat (mix_volume t)),
      (''blow_out'', opt_val PBool (blow_out t)),
      (''retract_distance'', opt_val PFloat (retract_distance t))]"

section \<open>The client and the wire\<close>

text \<open>
  A \<^verbatim>\<open>requests.Session\<close>, reduced to what the constructor configures: the header entries
  it adds to the library's defaults (which carry no credentials) and the basic-auth pair.
\<close>

record Session =
  headers :: "(string \<times> string) list"
  auth :: "(string \<times> string) option"

record FluentControlClient =
  base_url :: string
  timeout :: int
  session :: Session

text \<open>A request as the session issues it, with the session's headers and credentials.\<close>

record request =
  http_method :: string
  url :: string
  json :: "pyval option"
  params :: "pyval option"
  req_headers :: "(string \<times> string) list"
  req_auth :: "(string \<times> string) option"
  req_timeout :: int

text \<open>
  A response: its status code and its body, either JSON (what \<^verbatim>\<open>response.json()\<close>
  parses) or other text (on which \<^verbatim>\<open>response.json()\<close> raises).
\<close>

datatype payload = JsonBody pyval | TextBody string

record response =
  status_code :: nat
  content :: payload

datatype outcome = Responded response | NoResponse

text \<open>
  The exceptions the code can raise. \<open>HTTPError\<close> is what \<^verbatim>\<open>raise_for_status\<close> raises
  and carries the response (status code and body); \<open>TransportError\<close> stands for the
  other \<^verbatim>\<open>requests.RequestException\<close>s (connection failure, timeout), which carry none.
\<close>

datatype error =
    HTTPError response
  | TransportError
  | TypeError
  | JSONDecodeError
  | AttributeError
  | ValueError string

text \<open>
  The environment of a run: the instrument answers each request as a function of all
  requests issued so far (the last one being the current request); \<open>now k\<close> is what the
  \<open>k\<close>-th call of \<^verbatim>\<open>time.time()\<close> returns; \<open>str_other\<close> is Python's \<^verbatim>\<open>str\<close> on floats,
  lists, dicts and other objects, which this development takes as given.
\<close>

record env =
  instrument :: "request list \<Rightarrow> outcome"
  now :: "nat \<Rightarrow> real"
  str_other :: "pyval \<Rightarrow> string"

text \<open>
  The mutable state: the client object, the requests issued so far, the number of clock
  readings taken and the seconds spent in \<^verbatim>\<open>time.sleep\<close>.
\<close>

record world =
  client :: FluentControlClient
  sent :: "request list"
  clock_reads :: nat
  slept :: nat

type_synonym 'a action = "world \<Rightarrow> (error + 'a) \<times> world"

definition and_then :: "'a action \<Rightarrow> ('a \<Rightarrow> 'b action) \<Rightarrow> 'b action" where
  "and_then m f w = (case m w of (Inl err, w1) \<Rightarrow> (Inl err, w1) | (Inr x, w1) \<Rightarrow> f x w1)"

definition returns :: "'a \<Rightarrow> 'a action" where
  "returns x w = (Inr x, w)"

definition raises :: "error \<Rightarrow> 'a action" where
  "raises err w = (Inl err, w)"

definition time_time :: "env \<Rightarrow> real action" where
  "time_time e w = (Inr (now e (clock_reads w)), w\<lparr>clock_reads := Suc (clock_reads w)\<rparr>)"

definition time_sleep :: "nat \<Rightarrow> unit action" where
  "time_sleep secs w = (Inr (), w\<lparr>slept := slept w + secs\<rparr>)"

subsection \<open>Construction\<close>

definition requests_Session :: Session where
  "requests_Session = \<lparr>headers = [], auth = None\<rparr>"

text \<open>\<^verbatim>\<open>dict.update\<close> on the header entries: an existing key keeps its place.\<close>

fun dict_update :: "(string \<times> string) list \<Rightarrow> (string \<times> string) list \<Rightarrow> (string \<times> string) list" where
  "dict_update hs [] = hs"
| "dict_update hs ((k, v) # kvs) =
     dict_update (if k \<in> set (map fst hs) then map (\<lambda>(k', v'). if k' = k then (k', v) else (k', v')) hs
                     else hs @ [(k, v)]) kvs"

definition rstrip_slash :: "string \<Rightarrow> string" where
  "rstrip_slash s = rev (dropWhile (\<lambda>c. c = CHR ''/'') (rev s))"

text \<open>A string argument counts as given when it is neither None nor empty.\<close>

definition given :: "string option \<Rightarrow> string option" where
  "given x = (case x of None \<Rightarrow> None | Some s \<Rightarrow> if s = [] then None else Some s)"

definition FluentControlClient_init ::
    "string \<Rightarrow> string option \<Rightarrow> string option \<Rightarrow> string option \<Rightarrow> int \<Rightarrow> FluentControlClient" where
  "FluentControlClient_init base username password api_key tmo =
     (let s = requests_Session in
      \<lparr>base_url = rstrip_slash base,
       timeout = tmo,
       session =
         (case given api_key of
            Some k \<Rightarrow>
              s\<lparr>headers := dict_update (headers s)
                   [(''Authorization'', ''Bearer '' @ k), (''Content-Type'', ''application/json'')]\<rparr>
          | None \<Rightarrow>
              (case (given username, given password) of
                 (Some u, Some p) \<Rightarrow>
                   s\<lparr>auth := Some (u, p),
                     headers := dict_update (headers s) [(''Content-Type'', ''application/json'')]\<rparr>
               | _ \<Rightarrow>
                   s\<lparr>headers := dict_update (headers s) [(''Content-Type'', ''application/json'')]\<rparr>))\<rparr>)"

subsection \<open>Requests\<close>

text \<open>
  \<^verbatim>\<open>session.request(method, url, json=data, params=params, timeout=...)\<close>: the payload
  is encoded (TypeError when it cannot be), the request is issued, and the instrument
  answers or the transport fails.
\<close>

definition build_request ::
    "FluentControlClient \<Rightarrow> string \<Rightarrow> string \<Rightarrow> pyval option \<Rightarrow> pyval option \<Rightarrow> request" where
  "build_request c meth u js ps =
     \<lparr>http_method = meth, url = u, json = js, params = ps,
      req_headers = headers (session c),
      req_auth = auth (session c),
      req_timeout = timeout c\<rparr>"

definition session_request ::
    "env \<Rightarrow> string \<Rightarrow> string \<Rightarrow> pyval option \<Rightarrow> pyval option \<Rightarrow> response action" where
  "session_request e meth u js ps w =
     (if (case js of None \<Rightarrow> False | Some d \<Rightarrow> \<not> json_serializable d) then (Inl TypeError, w)
      else
        (let r = build_request (client w) meth u js ps;
             w1 = w\<lparr>sent := sent w @ [r]\<rparr>
         in case instrument e (sent w1) of
              NoResponse \<Rightarrow> (Inl TransportError, w1)
            | Responded resp \<Rightarrow> (Inr resp, w1)))"

text \<open>\<^verbatim>\<open>Response.raise_for_status\<close> of the requests library: HTTPError on 4xx and 5xx.\<close>

definition raise_for_status :: "response \<Rightarrow> error + unit" where
  "raise_for_status r =
     (if 400 \<le> status_code r \<and> status_code r < 600 then Inl (HTTPError r) else Inr ())"

text \<open>
  \<^verbatim>\<open>_make_request\<close>. The debug line formats \<^verbatim>\<open>json.dumps(data, indent=2)\<close> whenever the
  payload is truthy, before anything is sent, so a payload that cannot be encoded raises
  TypeError there. The handler logs a RequestException and raises it again.
\<close>

definition make_request ::
    "env \<Rightarrow> string \<Rightarrow> string \<Rightarrow> pyval option \<Rightarrow> pyval option \<Rightarrow> response action" where
  "make_request e meth endpoint data ps w =
     (let u = base_url (client w) @ endpoint in
      if (case data of None \<Rightarrow> False | Some d \<Rightarrow> py_truthy d \<and> \<not> json_serializable d)
      then (Inl TypeError, w)
      else
        (case session_request e meth u data ps w of
           (Inl err, w1) \<Rightarrow> (Inl err, w1)
         | (Inr resp, w1) \<Rightarrow>
             (case raise_for_status resp of
                Inl err \<Rightarrow> (Inl err, w1)
              | Inr _ \<Rightarrow> (Inr resp, w1))))"

text \<open>\<^verbatim>\<open>response.json()\<close>.\<close>

definition response_json :: "response \<Rightarrow> pyval action" where
  "response_json r w =
     (case content r of JsonBody v \<Rightarrow> (Inr v, w) | TextBody s \<Rightarrow> (Inl JSONDecodeError, w))"

subsection \<open>Client operations\<close>

definition get_instrument_status :: "env \<Rightarrow> pyval action" where
  "get_instrument_status e =
     and_then (make_request e ''GET'' ''/api/v1/status'' None None) response_json"

definition get_deck_layout :: "env \<Rightarrow> pyval action" where
  "get_deck_layout e =
     and_then (make_request e ''GET'' ''/api/v1/deck/layout'' None None) response_json"

definition layout_data :: "LabwarePosition list \<Rightarrow> real \<Rightarrow> pyval" where
  "layout_data positions t = PDict
     [(''positions'', PList (map asdict_LabwarePosition positions)),
      (''timestamp'', PFloat t),
      (''version'', PStr ''1.0'')]"

definition post_deck_layout :: "env \<Rightarrow> LabwarePosition list \<Rightarrow> pyval action" where
  "post_deck_layout e positions =
     and_then (time_time e) (\<lambda>t.
     and_then (make_request e ''POST'' ''/api/v1/deck/layout'' (Some (layout_data positions t)) None)
       response_json)"

definition session_data :: "TransferParameters list \<Rightarrow> real \<Rightarrow> real \<Rightarrow> pyval" where
  "session_data transfers t1 t2 = PDict
     [(''transfers'', PList (map asdict_TransferParameters transfers)),
      (''session_id'', PStr (''session_'' @ str_int (py_int_of_float t1))),
      (''timestamp'', PFloat t2),
      (''status'', PStr ''pending'')]"

definition post_transfer_session :: "env \<Rightarrow> TransferParameters list \<Rightarrow> pyval action" where
  "post_transfer_session e transfers =
     and_then (time_time e) (\<lambda>t1.
     and_then (time_time e) (\<lambda>t2.
     and_then (make_request e ''POST'' ''/api/v1/transfers/session''
                 (Some (session_data transfers t1 t2)) None)
       response_json))"

text \<open>What an f-string puts in place of \<^verbatim>\<open>{session_id}\<close>.\<close>

definition py_format :: "env \<Rightarrow> pyval \<Rightarrow> string" where
  "py_format e v =
     (case v of
        PStr s \<Rightarrow> s
      | PInt i \<Rightarrow> str_int i
      | PBool b \<Rightarrow> (if b then ''True'' else ''False'')
      | PNone \<Rightarrow> ''None''
      | _ \<Rightarrow> str_other e v)"

definition start_transfer_session :: "env \<Rightarrow> pyval \<Rightarrow> pyval action" where
  "start_transfer_session e session_id =
     and_then (make_request e ''POST''
                 (''/api/v1/transfers/session/'' @ py_format e session_id @ ''/start'') None None)
       response_json"

definition get_transfer_status :: "env \<Rightarrow> pyval \<Rightarrow> pyval action" where
  "get_transfer_status e session_id =
     and_then (make_request e ''GET''
                 (''/api/v1/transfers/session/'' @ py_format e session_id @ ''/status'') None None)
       response_json"

definition cancel_transfer_session :: "env \<Rightarrow> pyval \<Rightarrow> pyval action" where
  "cancel_transfer_session e session_id =
     and_then (make_request e ''POST''
                 (''/api/v1/transfers/session/'' @ py_format e session_id @ ''/cancel'') None None)
       response_json"

section \<open>Presets and layouts\<close>

text \<open>The enumerations and the protocol table of \<^verbatim>\<open>fluent_control_config.py\<close>.\<close>

datatype LiquidClass =
    WATER | DMSO | ETHANOL | STANDARD | HIGH_VISCOSITY | LOW_VOLUME | CELL_CULTURE | PROTEIN

fun LiquidClass_value :: "LiquidClass \<Rightarrow> string" where
  "LiquidClass_value WATER = ''Water''"
| "LiquidClass_value DMSO = ''DMSO''"
| "LiquidClass_value ETHANOL = ''Ethanol''"
| "LiquidClass_value STANDARD = ''Standard''"
| "LiquidClass_value HIGH_VISCOSITY = ''HighViscosity''"
| "LiquidClass_value LOW_VOLUME = ''LowVolume''"
| "LiquidClass_value CELL_CULTURE = ''CellCulture''"
| "LiquidClass_value PROTEIN = ''Protein''"

datatype TipType =
    STANDARD_10UL | STANDARD_50UL | STANDARD_200UL | STANDARD_1000UL
  | FILTERED_200UL | FILTERED_1000UL | LOW_RETENTION_200UL

fun TipType_value :: "TipType \<Rightarrow> string" where
  "TipType_value STANDARD_10UL = ''Standard_10uL''"
| "TipType_value STANDARD_50UL = ''Standard_50uL''"
| "TipType_value STANDARD_200UL = ''Standard_200uL''"
| "TipType_value STANDARD_1000UL = ''Standard_1000uL''"
| "TipType_value FILTERED_200UL = ''Filtered_200uL''"
| "TipType_value FILTERED_1000UL = ''Filtered_1000uL''"
| "TipType_value LOW_RETENTION_200UL = ''LowRetention_200uL''"

record TransferProtocol =
  p_name :: string
  p_liquid_class :: LiquidClass
  p_tip_type :: TipType
  p_aspiration_speed :: real
  p_dispense_speed :: real
  p_air_gap :: real
  p_touch_off :: bool
  p_mix_cycles :: int
  p_mix_volume :: real
  p_blow_out :: bool
  p_retract_distance :: real
  p_description :: string

definition TRANSFER_PROTOCOLS :: "(string \<times> TransferProtocol) list" where
  "TRANSFER_PROTOCOLS =
     [(''standard_water'',
       \<lparr>p_name = ''Standard Water Transfer'', p_liquid_class = WATER, p_tip_type = STANDARD_200UL,
        p_aspiration_speed = 100, p_dispense_speed = 100, p_air_gap = 5, p_touch_off = True,
        p_mix_cycles = 3, p_mix_volume = 25, p_blow_out = True, p_retract_distance = 2,
        p_description = ''Standard protocol for aqueous solutions''\<rparr>),
      (''dmso_transfer'',
       \<lparr>p_name = ''DMSO Transfer'', p_liquid_class = DMSO, p_tip_type = LOW_RETENTION_200UL,
        p_aspiration_speed = 50, p_dispense_speed = 50, p_air_gap = 10, p_touch_off = True,
        p_mix_cycles = 5, p_mix_volume = 30, p_blow_out = True, p_retract_distance = 3,
        p_description = ''Protocol optimized for DMSO and organic solvents''\<rparr>),
      (''cell_culture'',
       \<lparr>p_name = ''Cell Culture Transfer'', p_liquid_class = CELL_CULTURE, p_tip_type = FILTERED_200UL,
        p_aspiration_speed = 30, p_dispense_speed = 30, p_air_gap = 3, p_touch_off = False,
        p_mix_cycles = 2, p_mix_volume = 20, p_blow_out = False, p_retract_distance = 1,
        p_description = ''Gentle protocol for cell culture media''\<rparr>),
      (''protein_transfer'',
       \<lparr>p_name = ''Protein Transfer'', p_liquid_class = PROTEIN, p_tip_type = LOW_RETENTION_200UL,
        p_aspiration_speed = 40, p_dispense_speed = 40, p_air_gap = 5, p_touch_off = True,
        p_mix_cycles = 4, p_mix_volume = 25, p_blow_out = True, p_retract_distance = 2,
        p_description = ''Protocol for protein solutions and biological samples''\<rparr>)]"

definition get_transfer_protocol :: "string \<Rightarrow> TransferProtocol option" where
  "get_transfer_protocol protocol_name = map_of TRANSFER_PROTOCOLS protocol_name"

text \<open>
  \<^verbatim>\<open>create_standard_96_well_layout\<close>: eight occupied positions, each built with a
  position id, a labware type and a description; barcode and custom properties keep
  their default None.
\<close>

definition occupied_position :: "string \<Rightarrow> LabwareType \<Rightarrow> string \<Rightarrow> LabwarePosition" where
  "occupied_position pos_id lt descr =
     \<lparr>position_id = pos_id, labware_type = lt, barcode = None, status = OCCUPIED,
      description = Some descr, custom_properties = None\<rparr>"

definition create_standard_96_well_layout :: "LabwarePosition list" where
  "create_standard_96_well_layout =
     map (\<lambda>(pos_id, lt, descr). occupied_position pos_id lt descr)
       [(''A1'', MICROPLATE_96, ''Source_Plate_01''),
        (''A2'', MICROPLATE_96, ''Destination_Plate_01''),
        (''A3'', TIP_RACK_96, ''Tips_01''),
        (''A4'', TIP_RACK_96, ''Tips_02''),
        (''B1'', RESERVOIR, ''Wash_Buffer''),
        (''B2'', RESERVOIR, ''Reagent_01''),
        (''B3'', TIP_RACK_96, ''Tips_03''),
        (''B4'', TIP_RACK_96, ''Tips_04'')]"

definition create_transfer_parameters :: "string \<Rightarrow> string \<Rightarrow> real \<Rightarrow> TransferParameters" where
  "create_transfer_parameters source_pos dest_pos vol =
     \<lparr>source_position = source_pos, destination_position = dest_pos, volume_ul = vol,
      liquid_class = ''Standard'', tip_type = ''Standard_200uL'',
      aspiration_speed = Some 100, dispense_speed = Some 100, air_gap = Some 5,
      touch_off = Some True, mix_cycles = Some 3, mix_volume = Some (vol * 0.5),
      blow_out = Some True, retract_distance = Some 2\<rparr>"

section \<open>Workflow drivers\<close>

text \<open>\<^verbatim>\<open>d.get(key, default)\<close>; a JSON value that is not a dict has no \<^verbatim>\<open>get\<close>.\<close>

definition dict_get :: "pyval \<Rightarrow> string \<Rightarrow> pyval \<Rightarrow> pyval action" where
  "dict_get d k dflt w =
     (case d of
        PDict kvs \<Rightarrow> (Inr (case map_of kvs k of None \<Rightarrow> dflt | Some v \<Rightarrow> v), w)
      | _ \<Rightarrow> (Inl AttributeError, w))"

text \<open>\<^verbatim>\<open>status in ['completed', 'failed', 'cancelled']\<close>.\<close>

definition is_terminal :: "pyval \<Rightarrow> bool" where
  "is_terminal st = (st = PStr ''completed'' \<or> st = PStr ''failed'' \<or> st = PStr ''cancelled'')"

text \<open>
  The monitoring loop, written twice in the source: in \<^verbatim>\<open>run_complete_workflow\<close>
  (\<^verbatim>\<open>range(20)\<close>, default status \<^verbatim>\<open>'unknown'\<close>, 10 seconds between polls) and in
  \<^verbatim>\<open>main\<close> of \<^verbatim>\<open>fluent_control_automation.py\<close> (\<^verbatim>\<open>range(10)\<close>, default None,
  5 seconds). The argument \<open>n\<close> counts the iterations that remain, \<open>seen\<close> is the
  status variable as the previous iteration left it. When the range is exhausted the
  loop simply ends; no exception is raised.
\<close>

fun poll_status ::
    "env \<Rightarrow> pyval \<Rightarrow> pyval \<Rightarrow> nat \<Rightarrow> nat \<Rightarrow> pyval option \<Rightarrow> (pyval option) action" where
  "poll_status e session_id dflt secs 0 seen = returns seen"
| "poll_status e session_id dflt secs (Suc n) seen =
     and_then (get_transfer_status e session_id) (\<lambda>status_response.
     and_then (dict_get status_response ''status'' dflt) (\<lambda>st.
       if is_terminal st then returns (Some st)
       else and_then (time_sleep secs) (\<lambda>_.
              poll_status e session_id dflt secs n (Some st))))"

subsection \<open>\<^verbatim>\<open>FluentControlExamples\<close>\<close>

definition example_1_basic_deck_setup :: "env \<Rightarrow> pyval action" where
  "example_1_basic_deck_setup e =
     and_then (post_deck_layout e create_standard_96_well_layout) (\<lambda>resp.
     and_then (get_deck_layout e) (\<lambda>current_layout.
       returns resp))"

definition serial_dilution_transfers :: "TransferProtocol \<Rightarrow> TransferParameters list" where
  "serial_dilution_transfers protocol =
     map (\<lambda>i.
       \<lparr>source_position = (if i = 1 then ''A1'' else ''A'' @ str_nat i),
        destination_position = ''A'' @ str_nat (i + 1),
        volume_ul = 100 / 2 ^ i,
        liquid_class = LiquidClass_value (p_liquid_class protocol),
        tip_type = TipType_value (p_tip_type protocol),
        aspiration_speed = Some (p_aspiration_speed protocol),
        dispense_speed = Some (p_dispense_speed protocol),
        air_gap = Some (p_air_gap protocol),
        touch_off = Some (p_touch_off protocol),
        mix_cycles = Some (p_mix_cycles protocol),
        mix_volume = Some (p_mix_volume protocol),
        blow_out = Some (p_blow_out protocol),
        retract_distance = Some (p_retract_distance protocol)\<rparr>) [1..<6]"

definition example_2_serial_dilution_protocol :: "env \<Rightarrow> pyval action" where
  "example_2_serial_dilution_protocol e =
     (case get_transfer_protocol ''standard_water'' of
        None \<Rightarrow> raises AttributeError
      | Some protocol \<Rightarrow> post_transfer_session e (serial_dilution_transfers protocol))"

text \<open>
  \<^verbatim>\<open>run_complete_workflow\<close> from the session response on: the session id is read from
  the response, a missing (or otherwise falsy) id raises ValueError, then the session is
  started and monitored, and the session id is returned.
\<close>

definition start_and_monitor :: "env \<Rightarrow> pyval \<Rightarrow> pyval action" where
  "start_and_monitor e session_response =
     and_then (dict_get session_response ''session_id'' PNone) (\<lambda>session_id.
       if \<not> py_truthy session_id
       then raises (ValueError ''No session ID received from instrument'')
       else
         and_then (start_transfer_session e session_id) (\<lambda>start_response.
         and_then (poll_status e session_id (PStr ''unknown'') 10 20 None) (\<lambda>final_status.
           returns session_id)))"

text \<open>Steps 2 to 4 of \<^verbatim>\<open>run_complete_workflow\<close>, and the whole of it.\<close>

definition run_transfer_steps :: "env \<Rightarrow> pyval action" where
  "run_transfer_steps e =
     and_then (example_2_serial_dilution_protocol e) (start_and_monitor e)"

definition run_complete_workflow :: "env \<Rightarrow> pyval action" where
  "run_complete_workflow e =
     and_then (example_1_basic_deck_setup e) (\<lambda>_. run_transfer_steps e)"

subsection \<open>\<^verbatim>\<open>main\<close> of \<^verbatim>\<open>fluent_control_automation.py\<close>\<close>

definition main_transfers :: "TransferParameters list" where
  "main_transfers =
     [create_transfer_parameters ''A1'' ''A2'' 50,
      create_transfer_parameters ''A1'' ''A2'' 25,
      create_transfer_parameters ''B1'' ''A2'' 100]"

text \<open>
  From the session response on: the start and the monitoring loop are guarded by
  \<^verbatim>\<open>if session_id:\<close>; without a session id nothing more is done and nothing is raised.
\<close>

definition main_start_and_monitor :: "env \<Rightarrow> pyval \<Rightarrow> unit action" where
  "main_start_and_monitor e session_response =
     and_then (dict_get session_response ''session_id'' PNone) (\<lambda>session_id.
       if py_truthy session_id
       then
         and_then (start_transfer_session e session_id) (\<lambda>start_response.
         and_then (poll_status e session_id PNone 5 10 None) (\<lambda>final_status.
           returns ()))
       else returns ())"

definition main_transfer_steps :: "env \<Rightarrow> unit action" where
  "main_transfer_steps e =
     and_then (post_transfer_session e main_transfers) (main_start_and_monitor e)"

definition automation_main ::
    "env \<Rightarrow> string \<Rightarrow> string option \<Rightarrow> string option \<Rightarrow> string option \<Rightarrow> unit action" where
  "automation_main e instrument_url username password api_key w =
     (and_then (get_instrument_status e) (\<lambda>st.
      and_then (post_deck_layout e create_standard_96_well_layout) (\<lambda>layout_response.
        main_transfer_steps e)))
       (w\<lparr>client := FluentControlClient_init instrument_url username password api_key 30\<rparr>)"

section \<open>Vocabulary of the statements\<close>

text \<open>
  The seven public operations of the client as one type, so that a statement can speak
  of every operation at once.
\<close>

datatype operation =
    Get_instrument_status
  | Get_deck_layout
  | Post_deck_layout "LabwarePosition list"
  | Post_transfer_session "TransferParameters list"
  | Start_transfer_session pyval
  | Get_transfer_status pyval
  | Cancel_transfer_session pyval

fun perform :: "env \<Rightarrow> operation \<Rightarrow> pyval action" where
  "perform e Get_instrument_status = get_instrument_status e"
| "perform e Get_deck_layout = get_deck_layout e"
| "perform e (Post_deck_layout positions) = post_deck_layout e positions"
| "perform e (Post_transfer_session transfers) = post_transfer_session e transfers"
| "perform e (Start_transfer_session session_id) = start_transfer_session e session_id"
| "perform e (Get_transfer_status session_id) = get_transfer_status e session_id"
| "perform e (Cancel_transfer_session session_id) = cancel_transfer_session e session_id"

text \<open>The shape every operation shares: \<^verbatim>\<open>_make_request\<close>, then \<^verbatim>\<open>response.json()\<close>.\<close>

definition api_call :: "env \<Rightarrow> string \<Rightarrow> string \<Rightarrow> pyval option \<Rightarrow> pyval action" where
  "api_call e meth endpoint data = and_then (make_request e meth endpoint data None) response_json"

text \<open>The requests that start, poll and cancel a session, as a client \<open>c\<close> issues them.\<close>

definition start_request :: "env \<Rightarrow> FluentControlClient \<Rightarrow> pyval \<Rightarrow> request" where
  "start_request e c session_id =
     build_request c ''POST''
       (base_url c @ ''/api/v1/transfers/session/'' @ py_format e session_id @ ''/start'') None None"

definition status_request :: "env \<Rightarrow> FluentControlClient \<Rightarrow> pyval \<Rightarrow> request" where
  "status_request e c session_id =
     build_request c ''GET''
       (base_url c @ ''/api/v1/transfers/session/'' @ py_format e session_id @ ''/status'') None None"

definition cancel_request :: "env \<Rightarrow> FluentControlClient \<Rightarrow> pyval \<Rightarrow> request" where
  "cancel_request e c session_id =
     build_request c ''POST''
       (base_url c @ ''/api/v1/transfers/session/'' @ py_format e session_id @ ''/cancel'') None None"

text \<open>
  The request that submits a transfer session from world \<open>w\<close>, and the session id hint
  it carries.
\<close>

definition session_post :: "env \<Rightarrow> world \<Rightarrow> TransferParameters list \<Rightarrow> request" where
  "session_post e w transfers =
     build_request (client w) ''POST'' (base_url (client w) @ ''/api/v1/transfers/session'')
       (Some (session_data transfers (now e (clock_reads w)) (now e (Suc (clock_reads w))))) None"

definition session_id_hint :: "env \<Rightarrow> world \<Rightarrow> string" where
  "session_id_hint e w = ''session_'' @ str_int (py_int_of_float (now e (clock_reads w)))"

text \<open>The transfers that \<^verbatim>\<open>example_2_serial_dilution_protocol\<close> submits.\<close>

definition example_2_transfers :: "TransferParameters list" where
  "example_2_transfers =
     (case get_transfer_protocol ''standard_water'' of
        None \<Rightarrow> []
      | Some protocol \<Rightarrow> serial_dilution_transfers protocol)"

text \<open>
  What an operation makes of the instrument's answer: the parsed JSON body of a response
  that \<^verbatim>\<open>raise_for_status\<close> lets through; and what the monitoring loop then reads as the
  status.
\<close>

definition parsed_reply :: "outcome \<Rightarrow> pyval option" where
  "parsed_reply out =
     (case out of
        NoResponse \<Rightarrow> None
      | Responded resp \<Rightarrow>
          (if 400 \<le> status_code resp \<and> status_code resp < 600 then None
           else (case content resp of JsonBody v \<Rightarrow> Some v | TextBody s \<Rightarrow> None)))"

definition observed_status :: "pyval \<Rightarrow> outcome \<Rightarrow> pyval option" where
  "observed_status dflt out =
     (case parsed_reply out of
        Some (PDict kvs) \<Rightarrow> Some (case map_of kvs ''status'' of None \<Rightarrow> dflt | Some v \<Rightarrow> v)
      | _ \<Rightarrow> None)"

text \<open>
  The instrument answers each of the next \<open>n\<close> status polls from world \<open>w\<close> with a
  successful response whose status is not terminal.
\<close>

definition never_terminal :: "env \<Rightarrow> world \<Rightarrow> pyval \<Rightarrow> pyval \<Rightarrow> nat \<Rightarrow> bool" where
  "never_terminal e w session_id dflt n =
     list_all
       (\<lambda>k. case observed_status dflt
                   (instrument e (sent w @ replicate (Suc k) (status_request e (client w) session_id))) of
               None \<Rightarrow> False
             | Some st \<Rightarrow> \<not> is_terminal st)
       [0..<n]"

text \<open>
  Reading a serialized transfer back, as the specification's round-trip property has it:
  each field is looked up by its name and must hold a value of the field's type; an
  optional field may hold None. This is the inverse the specification speaks of, not a
  function of the source.
\<close>

definition as_str :: "pyval \<Rightarrow> string option" where
  "as_str v = (case v of PStr s \<Rightarrow> Some s | _ \<Rightarrow> None)"

definition as_float :: "pyval \<Rightarrow> real option" where
  "as_float v = (case v of PFloat x \<Rightarrow> Some x | _ \<Rightarrow> None)"

definition as_bool :: "pyval \<Rightarrow> bool option" where
  "as_bool v = (case v of PBool b \<Rightarrow> Some b | _ \<Rightarrow> None)"

definition as_int :: "pyval \<Rightarrow> int option" where
  "as_int v = (case v of PInt i \<Rightarrow> Some i | _ \<Rightarrow> None)"

definition as_optional :: "(pyval \<Rightarrow> 'a option) \<Rightarrow> pyval \<Rightarrow> 'a option option" where
  "as_optional f v = (case v of PNone \<Rightarrow> Some None | _ \<Rightarrow> map_option Some (f v))"

definition field :: "(string \<times> pyval) list \<Rightarrow> string \<Rightarrow> (pyval \<Rightarrow> 'a option) \<Rightarrow> 'a option" where
  "field kvs k f = Option.bind (map_of kvs k) f"

definition deserialize_TransferParameters :: "pyval \<Rightarrow> TransferParameters option" where
  "deserialize_TransferParameters d =
     (case d of
        PDict kvs \<Rightarrow>
          Option.bind (field kvs ''source_position'' as_str) (\<lambda>sp.
          Option.bind (field kvs ''destination_position'' as_str) (\<lambda>dp.
          Option.bind (field kvs ''volume_ul'' as_float) (\<lambda>vol.
          Option.bind (field kvs ''liquid_class'' as_str) (\<lambda>lc.
          Option.bind (field kvs ''tip_type'' as_str) (\<lambda>tt.
          Option.bind (field kvs ''aspiration_speed'' (as_optional as_float)) (\<lambda>asp.
          Option.bind (field kvs ''dispense_speed'' (as_optional as_float)) (\<lambda>dsp.
          Option.bind (field kvs ''air_gap'' (as_optional as_float)) (\<lambda>ag.
          Option.bind (field kvs ''touch_off'' (as_optional as_bool)) (\<lambda>tof.
          Option.bind (field kvs ''mix_cycles'' (as_optional as_int)) (\<lambda>mc.
          Option.bind (field kvs ''mix_volume'' (as_optional as_float)) (\<lambda>mv.
          Option.bind (field kvs ''blow_out'' (as_optional as_bool)) (\<lambda>bo.
          Option.bind (field kvs ''retract_distance'' (as_optional as_float)) (\<lambda>rd.
            Some \<lparr>source_position = sp, destination_position = dp, volume_ul = vol,
                  liquid_class = lc, tip_type = tt, aspiration_speed = asp,
                  dispense_speed = dsp, air_gap = ag, touch_off = tof, mix_cycles = mc,
                  mix_volume = mv, blow_out = bo, retract_distance = rd\<rparr>)))))))))))))
      | _ \<Rightarrow> None)"

text \<open>
  Concrete runs: an instrument that answers the \<open>k\<close>-th request with the \<open>k\<close>-th entry
  of a script and every later one with a fixed outcome, a clock that starts at
  1700000000.75 and advances by one second per reading, and a fresh world around a client.
\<close>

definition scripted :: "outcome list \<Rightarrow> outcome \<Rightarrow> env" where
  "scripted script rest =
     \<lparr>instrument = (\<lambda>rs. if length rs \<le> length script then script ! (length rs - 1) else rest),
      now = (\<lambda>k. 1700000000.75 + real k),
      str_other = (\<lambda>v. [])\<rparr>"

definition ok_json :: "pyval \<Rightarrow> outcome" where
  "ok_json v = Responded \<lparr>status_code = 200, content = JsonBody v\<rparr>"

definition fresh_world :: "FluentControlClient \<Rightarrow> world" where
  "fresh_world c = \<lparr>client = c, sent = [], clock_reads = 0, slept = 0\<rparr>"

definition lab_client :: FluentControlClient where
  "lab_client = FluentControlClient_init ''http://192.168.1.100/'' None None (Some ''k3y'') 30"

section \<open>Requests and operations\<close>

text \<open>
  Every value that is falsy can be encoded, so the two places where a payload is encoded
  (the debug line and the session) fail on the same payloads. An operation therefore
  either raises TypeError before anything is sent, or issues exactly one request and
  turns the instrument's answer into its result.
\<close>

lemma falsy_serializable: "\<not> py_truthy d \<Longrightarrow> json_serializable d"
  by (cases d) auto

lemma make_request_unfold:
  "make_request e meth endpoint data ps w =
     (if (case data of None \<Rightarrow> False | Some d \<Rightarrow> \<not> json_serializable d) then (Inl TypeError, w)
      else
        (case instrument e (sent w @ [build_request (client w) meth (base_url (client w) @ endpoint) data ps]) of
           NoResponse \<Rightarrow>
             (Inl TransportError,
              w\<lparr>sent := sent w @ [build_request (client w) meth (base_url (client w) @ endpoint) data ps]\<rparr>)
         | Responded resp \<Rightarrow>
             (if 400 \<le> status_code resp \<and> status_code resp < 600
              then (Inl (HTTPError resp),
                    w\<lparr>sent := sent w @ [build_request (client w) meth (base_url (client w) @ endpoint) data ps]\<rparr>)
              else (Inr resp,
                    w\<lparr>sent := sent w @ [build_request (client w) meth (base_url (client w) @ endpoint) data ps]\<rparr>))))"
  by (cases data)
     (auto simp: make_request_def session_request_def raise_for_status_def Let_def
           dest: falsy_serializable split: outcome.splits)

lemma api_call_unfold:
  "api_call e meth endpoint data w =
     (if (case data of None \<Rightarrow> False | Some d \<Rightarrow> \<not> json_serializable d) then (Inl TypeError, w)
      else
        (case instrument e (sent w @ [build_request (client w) meth (base_url (client w) @ endpoint) data None]) of
           NoResponse \<Rightarrow>
             (Inl TransportError,
              w\<lparr>sent := sent w @ [build_request (client w) meth (base_url (client w) @ endpoint) data None]\<rparr>)
         | Responded resp \<Rightarrow>
             (if 400 \<le> status_code resp \<and> status_code resp < 600
              then (Inl (HTTPError resp),
                    w\<lparr>sent := sent w @ [build_request (client w) meth (base_url (client w) @ endpoint) data None]\<rparr>)
              else (case content resp of
                      JsonBody v \<Rightarrow> Inr v
                    | TextBody s \<Rightarrow> Inl JSONDecodeError,
                    w\<lparr>sent := sent w @ [build_request (client w) meth (base_url (client w) @ endpoint) data None]\<rparr>))))"
  by (simp add: api_call_def and_then_def make_request_unfold response_json_def
           split: outcome.splits payload.splits)

lemma api_call_client: "client (snd (api_call e meth endpoint data w)) = client w"
  by (simp add: api_call_unfold split: outcome.splits payload.splits)


lemma api_call_None_snd:
  "snd (api_call e meth endpoint None w) =
     w\<lparr>sent := sent w @ [build_request (client w) meth (base_url (client w) @ endpoint) None None]\<rparr>"
  by (simp add: api_call_unfold split: outcome.splits payload.splits)

lemma api_call_error:
  assumes "sent (snd (api_call e meth endpoint data w)) \<noteq> sent w"
    and "instrument e (sent (snd (api_call e meth endpoint data w))) = Responded resp"
    and "400 \<le> status_code resp" and "status_code resp < 600"
  shows "fst (api_call e meth endpoint data w) = Inl (HTTPError resp) \<and>
         (\<exists>r. sent (snd (api_call e meth endpoint data w)) = sent w @ [r])"
  using assms
  by (auto simp: api_call_unfold split: if_splits outcome.splits payload.splits)

lemma api_call_parsed:
  assumes "parsed_reply (instrument e (sent w @ [build_request (client w) meth (base_url (client w) @ endpoint) None None])) = Some v"
  shows "api_call e meth endpoint None w =
           (Inr v, w\<lparr>sent := sent w @ [build_request (client w) meth (base_url (client w) @ endpoint) None None]\<rparr>)"
  using assms
  by (auto simp: api_call_unfold parsed_reply_def split: outcome.splits payload.splits if_splits)

text \<open>
  Each operation is one such call; the two POST operations read the clock first.
\<close>

lemma get_instrument_status_call: "get_instrument_status e = api_call e ''GET'' ''/api/v1/status'' None"
  by (simp add: get_instrument_status_def api_call_def)

lemma get_deck_layout_call: "get_deck_layout e = api_call e ''GET'' ''/api/v1/deck/layout'' None"
  by (simp add: get_deck_layout_def api_call_def)

lemma post_deck_layout_call:
  "post_deck_layout e positions w =
     api_call e ''POST'' ''/api/v1/deck/layout'' (Some (layout_data positions (now e (clock_reads w))))
       (w\<lparr>clock_reads := Suc (clock_reads w)\<rparr>)"
  by (simp add: post_deck_layout_def api_call_def and_then_def time_time_def)

lemma post_transfer_session_call:
  "post_transfer_session e transfers w =
     api_call e ''POST'' ''/api/v1/transfers/session''
       (Some (session_data transfers (now e (clock_reads w)) (now e (Suc (clock_reads w)))))
       (w\<lparr>clock_reads := Suc (Suc (clock_reads w))\<rparr>)"
  by (simp add: post_transfer_session_def api_call_def and_then_def time_time_def)

lemma start_transfer_session_call:
  "start_transfer_session e session_id =
     api_call e ''POST'' (''/api/v1/transfers/session/'' @ py_format e session_id @ ''/start'') None"
  by (simp add: start_transfer_session_def api_call_def)

lemma get_transfer_status_call:
  "get_transfer_status e session_id =
     api_call e ''GET'' (''/api/v1/transfers/session/'' @ py_format e session_id @ ''/status'') None"
  by (simp add: get_transfer_status_def api_call_def)

lemma cancel_transfer_session_call:
  "cancel_transfer_session e session_id =
     api_call e ''POST'' (''/api/v1/transfers/session/'' @ py_format e session_id @ ''/cancel'') None"
  by (simp add: cancel_transfer_session_def api_call_def)

lemma perform_call:
  "\<exists>meth endpoint data w0.
     perform e opn w = api_call e meth endpoint data w0 \<and> client w0 = client w \<and> sent w0 = sent w"
proof (cases opn)
  case (Post_deck_layout positions)
  have "perform e opn w =
          api_call e ''POST'' ''/api/v1/deck/layout''
            (Some (layout_data positions (now e (clock_reads w))))
            (w\<lparr>clock_reads := Suc (clock_reads w)\<rparr>)"
    by (simp add: Post_deck_layout post_deck_layout_call)
  moreover have "client (w\<lparr>clock_reads := Suc (clock_reads w)\<rparr>) = client w"
    and "sent (w\<lparr>clock_reads := Suc (clock_reads w)\<rparr>) = sent w"
    by simp_all
  ultimately show ?thesis by blast
next
  case (Post_transfer_session transfers)
  have "perform e opn w =
          api_call e ''POST'' ''/api/v1/transfers/session''
            (Some (session_data transfers (now e (clock_reads w)) (now e (Suc (clock_reads w)))))
            (w\<lparr>clock_reads := Suc (Suc (clock_reads w))\<rparr>)"
    by (simp add: Post_transfer_session post_transfer_session_call)
  moreover have "client (w\<lparr>clock_reads := Suc (Suc (clock_reads w))\<rparr>) = client w"
    and "sent (w\<lparr>clock_reads := Suc (Suc (clock_reads w))\<rparr>) = sent w"
    by simp_all
  ultimately show ?thesis by blast
next
  case Get_instrument_status
  then show ?thesis by (auto simp: get_instrument_status_call)
next
  case Get_deck_layout
  then show ?thesis by (auto simp: get_deck_layout_call)
next
  case (Start_transfer_session session_id)
  then show ?thesis by (auto simp: start_transfer_session_call)
next
  case (Get_transfer_status session_id)
  then show ?thesis by (auto simp: get_transfer_status_call)
next
  case (Cancel_transfer_session session_id)
  then show ?thesis by (auto simp: cancel_transfer_session_call)
qed


lemma start_transfer_session_snd:
  "snd (start_transfer_session e sid w) = w\<lparr>sent := sent w @ [start_request e (client w) sid]\<rparr>"
  by (simp add: start_transfer_session_call api_call_None_snd start_request_def)

text \<open>
  The concrete instruments and their answers.
\<close>

lemma scripted_rest:
  "rs \<noteq> [] \<Longrightarrow> instrument (scripted [] rest) rs = rest"
  by (simp add: scripted_def)

lemma scripted_nth:
  "rs \<noteq> [] \<Longrightarrow> length rs \<le> length script \<Longrightarrow>
   instrument (scripted script rest) rs = script ! (length rs - 1)"
  by (simp add: scripted_def)

lemma parsed_ok_json: "parsed_reply (ok_json v) = Some v"
  by (simp add: parsed_reply_def ok_json_def)

lemma observed_ok_json:
  "observed_status dflt (ok_json (PDict kvs)) =
     Some (case map_of kvs ''status'' of None \<Rightarrow> dflt | Some v \<Rightarrow> v)"
  by (simp add: observed_status_def parsed_ok_json)

subsection \<open>Failure on an error status\<close>

text \<open>
  Claim C4, as the code has it. Whenever one of the seven operations issues its request
  and the instrument answers it with a status from 400 to 599 (the statuses at which
  \<^verbatim>\<open>raise_for_status\<close> raises), the operation fails with the HTTPError that carries
  this response, status code and body; it has issued that one request and no other
  (nothing is retried), and it returns no parsed body.
\<close>

theorem error_status_fails_operation:
  assumes "sent (snd (perform e opn w)) \<noteq> sent w"
    and "instrument e (sent (snd (perform e opn w))) = Responded resp"
    and "400 \<le> status_code resp" and "status_code resp < 600"
  shows "fst (perform e opn w) = Inl (HTTPError resp) \<and>
         (\<exists>r. sent (snd (perform e opn w)) = sent w @ [r])"
proof -
  obtain meth endpoint data w0 where
    c: "perform e opn w = api_call e meth endpoint data w0" "sent w0 = sent w"
    using perform_call by blast
  show ?thesis
    using assms api_call_error [of e meth endpoint data w0 resp] by (simp add: c)
qed

text \<open>
  A status poll answered with 404: the operation raises the HTTPError with the 404
  response after a single request.
\<close>

theorem error_status_fails_operation_witness:
  "fst (perform (scripted [] (Responded \<lparr>status_code = 404, content = TextBody ''no such session''\<rparr>))
          (Get_transfer_status (PStr ''run-42'')) (fresh_world lab_client))
     = Inl (HTTPError \<lparr>status_code = 404, content = TextBody ''no such session''\<rparr>)
   \<and> length (sent (snd (perform
          (scripted [] (Responded \<lparr>status_code = 404, content = TextBody ''no such session''\<rparr>))
          (Get_transfer_status (PStr ''run-42'')) (fresh_world lab_client)))) = 1"
proof -
  let ?r = "\<lparr>status_code = 404, content = TextBody ''no such session''\<rparr>"
  let ?e = "scripted [] (Responded ?r)"
  let ?op = "Get_transfer_status (PStr ''run-42'')"
  let ?w = "fresh_world lab_client"
  have h1: "sent (snd (perform ?e ?op ?w)) \<noteq> sent ?w"
    by (simp add: get_transfer_status_call api_call_unfold scripted_rest)
  have h2: "instrument ?e (sent (snd (perform ?e ?op ?w))) = Responded ?r"
    by (simp add: get_transfer_status_call api_call_unfold scripted_rest)
  have h3: "400 \<le> status_code ?r" and h4: "status_code ?r < 600"
    by simp_all
  from error_status_fails_operation [OF h1 h2 h3 h4]
  show ?thesis by (auto simp: fresh_world_def)
qed

text \<open>
  Claim C4 as stated covers every status from 400 upwards. A response with status 600
  passes \<^verbatim>\<open>raise_for_status\<close>, and the operation returns its parsed body as a
  success.
\<close>

theorem status_600_counterexample:
  "400 \<le> status_code \<lparr>status_code = 600, content = JsonBody (PDict [(''state'', PStr ''idle'')])\<rparr>
   \<and> instrument
       (scripted [] (Responded \<lparr>status_code = 600, content = JsonBody (PDict [(''state'', PStr ''idle'')])\<rparr>))
       (sent (snd (perform
          (scripted [] (Responded \<lparr>status_code = 600, content = JsonBody (PDict [(''state'', PStr ''idle'')])\<rparr>))
          Get_instrument_status (fresh_world lab_client))))
     = Responded \<lparr>status_code = 600, content = JsonBody (PDict [(''state'', PStr ''idle'')])\<rparr>
   \<and> fst (perform
          (scripted [] (Responded \<lparr>status_code = 600, content = JsonBody (PDict [(''state'', PStr ''idle'')])\<rparr>))
          Get_instrument_status (fresh_world lab_client))
     = Inr (PDict [(''state'', PStr ''idle'')])
   \<and> \<not> isl (fst (perform
          (scripted [] (Responded \<lparr>status_code = 600, content = JsonBody (PDict [(''state'', PStr ''idle'')])\<rparr>))
          Get_instrument_status (fresh_world lab_client)))"
  by (simp add: get_instrument_status_call api_call_unfold scripted_rest)

subsection \<open>The client is not modified\<close>

text \<open>
  Claim C9. No operation changes the client: base URL, timeout, headers and credentials
  are after the operation what they were before it, whatever the instrument answers.
\<close>

theorem operations_leave_client_unchanged: "client (snd (perform e opn w)) = client w"
proof -
  obtain meth endpoint data w0 where
    "perform e opn w = api_call e meth endpoint data w0" "client w0 = client w"
    using perform_call by blast
  then show ?thesis by (simp add: api_call_client)
qed

subsection \<open>Authentication\<close>



section \<open>Serialization\<close>

subsection \<open>Deck layouts\<close>

text \<open>
  A payload with at least one position holds enum objects and cannot be encoded, so
  \<^verbatim>\<open>post_deck_layout\<close> raises TypeError after reading the clock and sends nothing.
\<close>

lemma layout_data_not_serializable:
  "positions \<noteq> [] \<Longrightarrow> \<not> json_serializable (layout_data positions t)"
  by (cases positions) (simp_all add: layout_data_def asdict_LabwarePosition_def)

lemma post_deck_layout_TypeError:
  "positions \<noteq> [] \<Longrightarrow>
   post_deck_layout e positions w = (Inl TypeError, w\<lparr>clock_reads := Suc (clock_reads w)\<rparr>)"
  by (simp add: post_deck_layout_call api_call_unfold layout_data_not_serializable)

text \<open>
  Claim C1. The claim asks for the declared string values in the request body. For the
  single position A1 (a 96-well microplate, occupied), \<^verbatim>\<open>asdict\<close> yields the enum
  objects instead, which differ from their string values, and \<^verbatim>\<open>post_deck_layout\<close>
  raises TypeError without issuing a request.
\<close>

theorem post_deck_layout_enum_objects:
  "asdict_LabwarePosition
     \<lparr>position_id = ''A1'', labware_type = MICROPLATE_96, barcode = None, status = OCCUPIED,
      description = None, custom_properties = None\<rparr> =
   PDict [(''position_id'', PStr ''A1''),
          (''labware_type'', PLabwareType MICROPLATE_96),
          (''barcode'', PNone),
          (''status'', PPositionStatus OCCUPIED),
          (''description'', PNone),
          (''custom_properties'', PNone)]
   \<and> PLabwareType MICROPLATE_96 \<noteq> PStr (LabwareType_value MICROPLATE_96)
   \<and> PPositionStatus OCCUPIED \<noteq> PStr (PositionStatus_value OCCUPIED)
   \<and> post_deck_layout e
       [\<lparr>position_id = ''A1'', labware_type = MICROPLATE_96, barcode = None, status = OCCUPIED,
         description = None, custom_properties = None\<rparr>] w
     = (Inl TypeError, w\<lparr>clock_reads := Suc (clock_reads w)\<rparr>)"
  by (simp add: asdict_LabwarePosition_def opt_val_def post_deck_layout_TypeError)

text \<open>
  Both drivers post the standard layout of eight positions before anything else, so
  \<^verbatim>\<open>run_complete_workflow\<close> always ends in this TypeError and \<^verbatim>\<open>main\<close> never
  ends normally. The statements on session handling and monitoring below are therefore
  about the steps that follow the layout, taken by themselves.
\<close>

lemma run_complete_workflow_TypeError:
  "run_complete_workflow e w = (Inl TypeError, w\<lparr>clock_reads := Suc (clock_reads w)\<rparr>)"
  by (simp add: run_complete_workflow_def example_1_basic_deck_setup_def and_then_def
        post_deck_layout_TypeError create_standard_96_well_layout_def)

lemma automation_main_fails:
  "isl (fst (automation_main e instrument_url username password api_key w))"
  by (auto simp: automation_main_def and_then_def post_deck_layout_TypeError
        create_standard_96_well_layout_def split: prod.splits sum.splits)

subsection \<open>Transfer sessions\<close>

lemma opt_val_serializable:
  "json_serializable (opt_val PFloat x)" "json_serializable (opt_val PBool b)"
  "json_serializable (opt_val PInt i)" "json_serializable (opt_val PStr s)"
  by (simp_all add: opt_val_def split: option.splits)

lemma asdict_TransferParameters_serializable:
  "json_serializable (asdict_TransferParameters t)"
  by (simp add: asdict_TransferParameters_def opt_val_serializable)

lemma session_data_serializable: "json_serializable (session_data transfers t1 t2)"
  by (simp add: session_data_def list_all_iff asdict_TransferParameters_serializable)

text \<open>
  The request that \<^verbatim>\<open>post_transfer_session\<close> issues. Serialized transfers hold
  nothing but strings, numbers, booleans and None, so the payload can always be encoded
  and the request is always issued (floats being finite here).
\<close>

lemma post_transfer_session_sent:
  "sent (snd (post_transfer_session e transfers w)) =
     sent w @
     [build_request (client w) ''POST'' (base_url (client w) @ ''/api/v1/transfers/session'')
        (Some (session_data transfers (now e (clock_reads w)) (now e (Suc (clock_reads w))))) None]"
  using session_data_serializable [of transfers "now e (clock_reads w)" "now e (Suc (clock_reads w))"]
  by (simp add: post_transfer_session_call api_call_unfold split: outcome.splits payload.splits)

text \<open>
  Claim C7. \<^verbatim>\<open>post_transfer_session\<close> issues exactly one request, a POST to the session
  endpoint. Its body holds, under \<^verbatim>\<open>transfers\<close>, one dict per transfer with the
  thirteen fields in declaration order, each with the value the record holds and None
  for an unset optional field; under \<^verbatim>\<open>session_id\<close> the hint \<^verbatim>\<open>session_\<close> followed by
  the decimal digits of the first clock reading truncated towards zero; under
  \<^verbatim>\<open>timestamp\<close> the second clock reading; and under \<^verbatim>\<open>status\<close> the string
  \<^verbatim>\<open>pending\<close>. The second part is one such submission written out: two transfers, one
  with every tuning field set and one with none, at clock readings 1700000000.75 and
  1700000001.75.
\<close>

theorem post_transfer_session_body:
  "sent (snd (post_transfer_session e transfers w)) =
     sent w @
     [\<lparr>http_method = ''POST'',
       url = base_url (client w) @ ''/api/v1/transfers/session'',
       json = Some (PDict
         [(''transfers'', PList (map (\<lambda>t. PDict
             [(''source_position'', PStr (source_position t)),
              (''destination_position'', PStr (destination_position t)),
              (''volume_ul'', PFloat (volume_ul t)),
              (''liquid_class'', PStr (liquid_class t)),
              (''tip_type'', PStr (tip_type t)),
              (''aspiration_speed'',
                 (case aspiration_speed t of None \<Rightarrow> PNone | Some x \<Rightarrow> PFloat x)),
              (''dispense_speed'',
                 (case dispense_speed t of None \<Rightarrow> PNone | Some x \<Rightarrow> PFloat x)),
              (''air_gap'', (case air_gap t of None \<Rightarrow> PNone | Some x \<Rightarrow> PFloat x)),
              (''touch_off'', (case touch_off t of None \<Rightarrow> PNone | Some b \<Rightarrow> PBool b)),
              (''mix_cycles'', (case mix_cycles t of None \<Rightarrow> PNone | Some i \<Rightarrow> PInt i)),
              (''mix_volume'', (case mix_volume t of None \<Rightarrow> PNone | Some x \<Rightarrow> PFloat x)),
              (''blow_out'', (case blow_out t of None \<Rightarrow> PNone | Some b \<Rightarrow> PBool b)),
              (''retract_distance'',
                 (case retract_distance t of None \<Rightarrow> PNone | Some x \<Rightarrow> PFloat x))])
             transfers)),
          (''session_id'', PStr (''session_'' @
             str_int (if 0 \<le> now e (clock_reads w) then \<lfloor>now e (clock_reads w)\<rfloor>
                      else \<lceil>now e (clock_reads w)\<rceil>))),
          (''timestamp'', PFloat (now e (Suc (clock_reads w)))),
          (''status'', PStr ''pending'')]),
       params = None,
       req_headers = headers (session (client w)),
       req_auth = auth (session (client w)),
       req_timeout = timeout (client w)\<rparr>]
   \<and> sent (snd (post_transfer_session
         (scripted [] (ok_json (PDict [(''session_id'', PStr ''run-42'')])))
         [create_transfer_parameters ''A1'' ''A2'' 50,
          \<lparr>source_position = ''A1'', destination_position = ''A3'', volume_ul = 12.5,
           liquid_class = ''Standard'', tip_type = ''Standard_200uL'',
           aspiration_speed = None, dispense_speed = None, air_gap = None, touch_off = None,
           mix_cycles = None, mix_volume = None, blow_out = None, retract_distance = None\<rparr>]
         (fresh_world lab_client))) =
     [\<lparr>http_method = ''POST'',
       url = ''http://192.168.1.100/api/v1/transfers/session'',
       json = Some (PDict
         [(''transfers'', PList
            [PDict [(''source_position'', PStr ''A1''),
                    (''destination_position'', PStr ''A2''),
                    (''volume_ul'', PFloat 50),
                    (''liquid_class'', PStr ''Standard''),
                    (''tip_type'', PStr ''Standard_200uL''),
                    (''aspiration_speed'', PFloat 100),
                    (''dispense_speed'', PFloat 100),
                    (''air_gap'', PFloat 5),
                    (''touch_off'', PBool True),
                    (''mix_cycles'', PInt 3),
                    (''mix_volume'', PFloat 25),
                    (''blow_out'', PBool True),
                    (''retract_distance'', PFloat 2)],
             PDict [(''source_position'', PStr ''A1''),
                    (''destination_position'', PStr ''A3''),
                    (''volume_ul'', PFloat 12.5),
                    (''liquid_class'', PStr ''Standard''),
                    (''tip_type'', PStr ''Standard_200uL''),
                    (''aspiration_speed'', PNone),
                    (''dispense_speed'', PNone),
                    (''air_gap'', PNone),
                    (''touch_off'', PNone),
                    (''mix_cycles'', PNone),
                    (''mix_volume'', PNone),
                    (''blow_out'', PNone),
                    (''retract_distance'', PNone)]]),
          (''session_id'', PStr ''session_1700000000''),
          (''timestamp'', PFloat 1700000001.75),
          (''status'', PStr ''pending'')]),
       params = None,
       req_headers = [(''Authorization'', ''Bearer k3y''), (''Content-Type'', ''application/json'')],
       req_auth = None,
       req_timeout = 30\<rparr>]"
proof (intro conjI)
  show "sent (snd (post_transfer_session e transfers w)) =
     sent w @
     [\<lparr>http_method = ''POST'',
       url = base_url (client w) @ ''/api/v1/transfers/session'',
       json = Some (PDict
         [(''transfers'', PList (map (\<lambda>t. PDict
             [(''source_position'', PStr (source_position t)),
              (''destination_position'', PStr (destination_position t)),
              (''volume_ul'', PFloat (volume_ul t)),
              (''liquid_class'', PStr (liquid_class t)),
              (''tip_type'', PStr (tip_type t)),
              (''aspiration_speed'',
                 (case aspiration_speed t of None \<Rightarrow> PNone | Some x \<Rightarrow> PFloat x)),
              (''dispense_speed'',
                 (case dispense_speed t of None \<Rightarrow> PNone | Some x \<Rightarrow> PFloat x)),
              (''air_gap'', (case air_gap t of None \<Rightarrow> PNone | Some x \<Rightarrow> PFloat x)),
              (''touch_off'', (case touch_off t of None \<Rightarrow> PNone | Some b \<Rightarrow> PBool b)),
              (''mix_cycles'', (case mix_cycles t of None \<Rightarrow> PNone | Some i \<Rightarrow> PInt i)),
              (''mix_volume'', (case mix_volume t of None \<Rightarrow> PNone | Some x \<Rightarrow> PFloat x)),
              (''blow_out'', (case blow_out t of None \<Rightarrow> PNone | Some b \<Rightarrow> PBool b)),
              (''retract_distance'',
                 (case retract_distance t of None \<Rightarrow> PNone | Some x \<Rightarrow> PFloat x))])
             transfers)),
          (''session_id'', PStr (''session_'' @
             str_int (if 0 \<le> now e (clock_reads w) then \<lfloor>now e (clock_reads w)\<rfloor>
                      else \<lceil>now e (clock_reads w)\<rceil>))),
          (''timestamp'', PFloat (now e (Suc (clock_reads w)))),
          (''status'', PStr ''pending'')]),
       params = None,
       req_headers = headers (session (client w)),
       req_auth = auth (session (client w)),
       req_timeout = timeout (client w)\<rparr>]"
    unfolding post_transfer_session_sent
    by (simp add: build_request_def session_data_def asdict_TransferParameters_def opt_val_def
          py_int_of_float_def)
next
  show "sent (snd (post_transfer_session
         (scripted [] (ok_json (PDict [(''session_id'', PStr ''run-42'')])))
         [create_transfer_parameters ''A1'' ''A2'' 50,
          \<lparr>source_position = ''A1'', destination_position = ''A3'', volume_ul = 12.5,
           liquid_class = ''Standard'', tip_type = ''Standard_200uL'',
           aspiration_speed = None, dispense_speed = None, air_gap = None, touch_off = None,
           mix_cycles = None, mix_volume = None, blow_out = None, retract_distance = None\<rparr>]
         (fresh_world lab_client))) =
     [\<lparr>http_method = ''POST'',
       url = ''http://192.168.1.100/api/v1/transfers/session'',
       json = Some (PDict
         [(''transfers'', PList
            [PDict [(''source_position'', PStr ''A1''),
                    (''destination_position'', PStr ''A2''),
                    (''volume_ul'', PFloat 50),
                    (''liquid_class'', PStr ''Standard''),
                    (''tip_type'', PStr ''Standard_200uL''),
                    (''aspiration_speed'', PFloat 100),
                    (''dispense_speed'', PFloat 100),
                    (''air_gap'', PFloat 5),
                    (''touch_off'', PBool True),
                    (''mix_cycles'', PInt 3),
                    (''mix_volume'', PFloat 25),
                    (''blow_out'', PBool True),
                    (''retract_distance'', PFloat 2)],
             PDict [(''source_position'', PStr ''A1''),
                    (''destination_position'', PStr ''A3''),
                    (''volume_ul'', PFloat 12.5),
                    (''liquid_class'', PStr ''Standard''),
                    (''tip_type'', PStr ''Standard_200uL''),
                    (''aspiration_speed'', PNone),
                    (''dispense_speed'', PNone),
                    (''air_gap'', PNone),
                    (''touch_off'', PNone),
                    (''mix_cycles'', PNone),
                    (''mix_volume'', PNone),
                    (''blow_out'', PNone),
                    (''retract_distance'', PNone)]]),
          (''session_id'', PStr ''session_1700000000''),
          (''timestamp'', PFloat 1700000001.75),
          (''status'', PStr ''pending'')]),
       params = None,
       req_headers = [(''Authorization'', ''Bearer k3y''), (''Content-Type'', ''application/json'')],
       req_auth = None,
       req_timeout = 30\<rparr>]"
    unfolding post_transfer_session_sent
    by (simp add: build_request_def session_data_def asdict_TransferParameters_def opt_val_def
          py_int_of_float_def str_int_def create_transfer_parameters_def scripted_def
          fresh_world_def lab_client_def FluentControlClient_init_def given_def
          requests_Session_def rstrip_slash_def)
qed

lemma as_optional_opt_val:
  "as_optional as_float (opt_val PFloat x) = Some x"
  "as_optional as_bool (opt_val PBool b) = Some b"
  "as_optional as_int (opt_val PInt i) = Some i"
  by (simp_all add: as_optional_def opt_val_def as_float_def as_bool_def as_int_def
        split: option.splits)

lemma deserialize_asdict:
  "deserialize_TransferParameters (asdict_TransferParameters t) = Some t"
  by (simp add: deserialize_TransferParameters_def asdict_TransferParameters_def field_def
        as_optional_opt_val as_str_def as_float_def)

text \<open>
  Claim C8. For a transfer with a positive volume, reading the serialized record back
  yields the record itself: every field, set or unset, keeps its value; and the record
  enters the request body as serialized.
\<close>

theorem transfer_serialization_round_trip:
  "0 < volume_ul t \<Longrightarrow>
   deserialize_TransferParameters (asdict_TransferParameters t) = Some t \<and>
   session_data [t] t1 t2 =
     PDict [(''transfers'', PList [asdict_TransferParameters t]),
            (''session_id'', PStr (''session_'' @ str_int (py_int_of_float t1))),
            (''timestamp'', PFloat t2),
            (''status'', PStr ''pending'')]"
  by (simp add: deserialize_asdict session_data_def)

text \<open>
  The standard transfer of 50 microlitres from A1 to A2.
\<close>

theorem transfer_serialization_round_trip_witness:
  "0 < volume_ul (create_transfer_parameters ''A1'' ''A2'' 50)
   \<and> deserialize_TransferParameters
       (asdict_TransferParameters (create_transfer_parameters ''A1'' ''A2'' 50))
     = Some (create_transfer_parameters ''A1'' ''A2'' 50)"
proof -
  have h: "0 < volume_ul (create_transfer_parameters ''A1'' ''A2'' 50)"
    by (simp add: create_transfer_parameters_def)
  from transfer_serialization_round_trip [OF h] h show ?thesis by simp
qed

section \<open>Monitoring\<close>

text \<open>
  One iteration of the loop issues one status request; it ends the loop with an error
  or a terminal status, or sleeps and goes on.
\<close>

lemma poll_status_Suc_cases:
  "(\<exists>err. poll_status e sid dflt secs (Suc n) seen w =
            (Inl err, w\<lparr>sent := sent w @ [status_request e (client w) sid]\<rparr>))
   \<or> (\<exists>st. poll_status e sid dflt secs (Suc n) seen w =
            (Inr (Some st), w\<lparr>sent := sent w @ [status_request e (client w) sid]\<rparr>))
   \<or> (\<exists>st. poll_status e sid dflt secs (Suc n) seen w =
            poll_status e sid dflt secs n (Some st)
              (w\<lparr>sent := sent w @ [status_request e (client w) sid], slept := slept w + secs\<rparr>))"
  by (auto simp: and_then_def get_transfer_status_call api_call_unfold dict_get_def
        time_sleep_def returns_def status_request_def
        split: outcome.splits payload.splits pyval.splits)

lemma poll_status_Suc_observed:
  assumes "observed_status dflt (instrument e (sent w @ [status_request e (client w) sid])) = Some st"
  shows "poll_status e sid dflt secs (Suc n) seen w =
           (if is_terminal st
            then (Inr (Some st), w\<lparr>sent := sent w @ [status_request e (client w) sid]\<rparr>)
            else poll_status e sid dflt secs n (Some st)
                   (w\<lparr>sent := sent w @ [status_request e (client w) sid], slept := slept w + secs\<rparr>))"
proof -
  from assms obtain kvs where
    p: "parsed_reply (instrument e (sent w @ [status_request e (client w) sid])) = Some (PDict kvs)"
    and s: "st = (case map_of kvs ''status'' of None \<Rightarrow> dflt | Some v \<Rightarrow> v)"
    by (auto simp: observed_status_def split: option.splits pyval.splits)
  have "get_transfer_status e sid w =
          (Inr (PDict kvs), w\<lparr>sent := sent w @ [status_request e (client w) sid]\<rparr>)"
    using p unfolding get_transfer_status_call status_request_def
    by (rule api_call_parsed [simplified append_assoc])
  then show ?thesis
    by (simp add: and_then_def dict_get_def s returns_def time_sleep_def)
qed

lemma poll_status_requests:
  "\<exists>k\<le>n. sent (snd (poll_status e sid dflt secs n seen w)) =
            sent w @ replicate k (status_request e (client w) sid)"
proof (induction n arbitrary: w seen)
  case 0
  show ?case by (simp add: returns_def)
next
  case (Suc n)
  let ?w1 = "w\<lparr>sent := sent w @ [status_request e (client w) sid]\<rparr>"
  let ?w2 = "w\<lparr>sent := sent w @ [status_request e (client w) sid], slept := slept w + secs\<rparr>"
  have one: "sent ?w1 = sent w @ replicate (Suc 0) (status_request e (client w) sid)"
    by simp
  from poll_status_Suc_cases [of e sid dflt secs n seen w]
  consider (err) err where "poll_status e sid dflt secs (Suc n) seen w = (Inl err, ?w1)"
    | (fin) st where "poll_status e sid dflt secs (Suc n) seen w = (Inr (Some st), ?w1)"
    | (cont) st where "poll_status e sid dflt secs (Suc n) seen w =
                         poll_status e sid dflt secs n (Some st) ?w2"
    by blast
  then show ?case
  proof cases
    case err
    then show ?thesis using one by (intro exI [of _ "Suc 0"]) simp
  next
    case fin
    then show ?thesis using one by (intro exI [of _ "Suc 0"]) simp
  next
    case cont
    from Suc.IH [of "Some st" ?w2] obtain k where
      k: "k \<le> n"
         "sent (snd (poll_status e sid dflt secs n (Some st) ?w2)) =
            sent ?w2 @ replicate k (status_request e (client ?w2) sid)"
      by blast
    show ?thesis
      using k cont by (intro exI [of _ "Suc k"]) simp
  qed
qed

lemma poll_status_exhausted:
  assumes "\<forall>k<n. \<exists>st. observed_status dflt
              (instrument e (sent w @ replicate (Suc k) (status_request e (client w) sid))) = Some st
            \<and> \<not> is_terminal st"
  shows "poll_status e sid dflt secs n seen w =
           (Inr (if n = 0 then seen
                 else observed_status dflt
                        (instrument e (sent w @ replicate n (status_request e (client w) sid)))),
            w\<lparr>sent := sent w @ replicate n (status_request e (client w) sid),
              slept := slept w + n * secs\<rparr>)"
  using assms
proof (induction n arbitrary: w seen)
  case 0
  show ?case by (simp add: returns_def)
next
  case (Suc n)
  let ?rq = "status_request e (client w) sid"
  let ?w2 = "w\<lparr>sent := sent w @ [?rq], slept := slept w + secs\<rparr>"
  from Suc.prems obtain st where
    st: "observed_status dflt (instrument e (sent w @ [?rq])) = Some st" "\<not> is_terminal st"
    by force
  have step: "poll_status e sid dflt secs (Suc n) seen w = poll_status e sid dflt secs n (Some st) ?w2"
    using poll_status_Suc_observed [OF st(1)] st(2) by simp
  have "\<forall>k<n. \<exists>st. observed_status dflt
              (instrument e (sent ?w2 @ replicate (Suc k) (status_request e (client ?w2) sid))) = Some st
            \<and> \<not> is_terminal st"
  proof (intro allI impI)
    fix k assume "k < n"
    then have "Suc k < Suc n" by simp
    with Suc.prems obtain s where
      "observed_status dflt (instrument e (sent w @ replicate (Suc (Suc k)) ?rq)) = Some s"
      "\<not> is_terminal s"
      by blast
    then show "\<exists>st. observed_status dflt
              (instrument e (sent ?w2 @ replicate (Suc k) (status_request e (client ?w2) sid))) = Some st
            \<and> \<not> is_terminal st"
      by auto
  qed
  from Suc.IH [OF this, of "Some st"]
  have "poll_status e sid dflt secs n (Some st) ?w2 =
          (Inr (if n = 0 then Some st
                else observed_status dflt (instrument e (sent w @ replicate (Suc n) ?rq))),
           w\<lparr>sent := sent w @ replicate (Suc n) ?rq, slept := slept w + Suc n * secs\<rparr>)"
    by (simp add: add.assoc)
  with step st(1) show ?case by (cases n) simp_all
qed

lemma poll_status_three:
  assumes "3 \<le> n"
    and "observed_status dflt
           (instrument e (sent w @ replicate 1 (status_request e (client w) sid))) = Some (PStr ''pending'')"
    and "observed_status dflt
           (instrument e (sent w @ replicate 2 (status_request e (client w) sid))) = Some (PStr ''pending'')"
    and "observed_status dflt
           (instrument e (sent w @ replicate 3 (status_request e (client w) sid))) = Some (PStr ''completed'')"
  shows "poll_status e sid dflt secs n seen w =
           (Inr (Some (PStr ''completed'')),
            w\<lparr>sent := sent w @ replicate 3 (status_request e (client w) sid),
              slept := slept w + 2 * secs\<rparr>)"
proof -
  let ?rq = "status_request e (client w) sid"
  from assms(1) obtain m where n: "n = Suc (Suc (Suc m))"
    by (metis Suc_le_D numeral_3_eq_3 Suc_le_mono)
  let ?w1 = "w\<lparr>sent := sent w @ [?rq], slept := slept w + secs\<rparr>"
  let ?w2 = "?w1\<lparr>sent := sent ?w1 @ [?rq], slept := slept ?w1 + secs\<rparr>"
  have a1: "observed_status dflt (instrument e (sent w @ [?rq])) = Some (PStr ''pending'')"
    using assms(2) by simp
  have a2: "observed_status dflt (instrument e (sent ?w1 @ [status_request e (client ?w1) sid]))
              = Some (PStr ''pending'')"
    using assms(3) by (simp add: numeral_2_eq_2)
  have a3: "observed_status dflt (instrument e (sent ?w2 @ [status_request e (client ?w2) sid]))
              = Some (PStr ''completed'')"
    using assms(4) by (simp add: numeral_3_eq_3)
  have "poll_status e sid dflt secs n seen w = poll_status e sid dflt secs (Suc (Suc m)) (Some (PStr ''pending'')) ?w1"
    unfolding n using poll_status_Suc_observed [OF a1] by (simp add: is_terminal_def)
  also have "\<dots> = poll_status e sid dflt secs (Suc m) (Some (PStr ''pending'')) ?w2"
    using poll_status_Suc_observed [OF a2] by (simp add: is_terminal_def)
  also have "\<dots> = (Inr (Some (PStr ''completed'')),
                    ?w2\<lparr>sent := sent ?w2 @ [status_request e (client ?w2) sid]\<rparr>)"
    using poll_status_Suc_observed [OF a3] by (simp add: is_terminal_def)
  finally show ?thesis by (simp add: numeral_3_eq_3)
qed

lemma never_terminal_unfold:
  "never_terminal e w sid dflt n \<Longrightarrow>
   \<forall>k<n. \<exists>st. observed_status dflt
              (instrument e (sent w @ replicate (Suc k) (status_request e (client w) sid))) = Some st
            \<and> \<not> is_terminal st"
proof (intro allI impI)
  fix k assume "k < n"
  assume "never_terminal e w sid dflt n"
  with \<open>k < n\<close> have
    c: "case observed_status dflt
               (instrument e (sent w @ replicate (Suc k) (status_request e (client w) sid))) of
          None \<Rightarrow> False
        | Some st \<Rightarrow> \<not> is_terminal st"
    unfolding never_terminal_def list_all_iff by simp
  show "\<exists>st. observed_status dflt
              (instrument e (sent w @ replicate (Suc k) (status_request e (client w) sid))) = Some st
            \<and> \<not> is_terminal st"
  proof (cases "observed_status dflt
              (instrument e (sent w @ replicate (Suc k) (status_request e (client w) sid)))")
    case None
    with c show ?thesis by simp
  next
    case (Some st)
    with c show ?thesis by simp
  qed
qed

lemma pending_forever:
  "never_terminal (scripted [] (ok_json (PDict [(''status'', PStr ''pending'')]))) w sid dflt n"
  by (simp add: never_terminal_def list_all_iff scripted_rest observed_ok_json is_terminal_def)

text \<open>
  Claim C5. The loop issues at most \<open>n\<close> requests, all of them status requests for
  the session; and when the instrument reports pending, pending, completed and at least
  three iterations are allowed, the loop issues exactly three, sleeps twice and ends
  having observed \<^verbatim>\<open>completed\<close>.
\<close>

theorem polling_bounded:
  "(\<exists>k\<le>n. sent (snd (poll_status e sid dflt secs n seen w)) =
            sent w @ replicate k (status_request e (client w) sid))
   \<and> (3 \<le> n
      \<and> observed_status dflt
          (instrument e (sent w @ replicate 1 (status_request e (client w) sid)))
            = Some (PStr ''pending'')
      \<and> observed_status dflt
          (instrument e (sent w @ replicate 2 (status_request e (client w) sid)))
            = Some (PStr ''pending'')
      \<and> observed_status dflt
          (instrument e (sent w @ replicate 3 (status_request e (client w) sid)))
            = Some (PStr ''completed'')
      \<longrightarrow> poll_status e sid dflt secs n seen w =
            (Inr (Some (PStr ''completed'')),
             w\<lparr>sent := sent w @ replicate 3 (status_request e (client w) sid),
               slept := slept w + 2 * secs\<rparr>))"
  using poll_status_requests [of n e sid dflt secs seen w]
    poll_status_three [of n dflt e w sid secs seen]
  by blast

text \<open>
  The loop of \<^verbatim>\<open>run_complete_workflow\<close> (20 iterations, 10 seconds) against an
  instrument that reports pending, pending, completed.
\<close>

theorem polling_bounded_witness:
  "poll_status
     (scripted [ok_json (PDict [(''status'', PStr ''pending'')]),
                ok_json (PDict [(''status'', PStr ''pending'')]),
                ok_json (PDict [(''status'', PStr ''completed''), (''progress'', PInt 100)])]
        NoResponse)
     (PStr ''run-42'') (PStr ''unknown'') 10 20 None (fresh_world lab_client)
   = (Inr (Some (PStr ''completed'')),
      (fresh_world lab_client)
        \<lparr>sent := sent (fresh_world lab_client) @
           replicate 3 (status_request
             (scripted [ok_json (PDict [(''status'', PStr ''pending'')]),
                        ok_json (PDict [(''status'', PStr ''pending'')]),
                        ok_json (PDict [(''status'', PStr ''completed''), (''progress'', PInt 100)])]
                NoResponse)
             (client (fresh_world lab_client)) (PStr ''run-42'')),
         slept := slept (fresh_world lab_client) + 2 * 10\<rparr>)"
proof -
  let ?e = "scripted [ok_json (PDict [(''status'', PStr ''pending'')]),
                ok_json (PDict [(''status'', PStr ''pending'')]),
                ok_json (PDict [(''status'', PStr ''completed''), (''progress'', PInt 100)])]
        NoResponse"
  let ?w = "fresh_world lab_client"
  let ?rq = "status_request ?e (client ?w) (PStr ''run-42'')"
  have h0: "(3::nat) \<le> 20" by simp
  have h1: "observed_status (PStr ''unknown'') (instrument ?e (sent ?w @ replicate 1 ?rq))
              = Some (PStr ''pending'')"
    by (simp add: scripted_nth observed_ok_json fresh_world_def)
  have h2: "observed_status (PStr ''unknown'') (instrument ?e (sent ?w @ replicate 2 ?rq))
              = Some (PStr ''pending'')"
    by (simp add: scripted_nth observed_ok_json fresh_world_def)
  have h3: "observed_status (PStr ''unknown'') (instrument ?e (sent ?w @ replicate 3 ?rq))
              = Some (PStr ''completed'')"
    by (simp add: scripted_nth observed_ok_json fresh_world_def)
  from polling_bounded [of 20 ?e "PStr ''run-42''" "PStr ''unknown''" 10 None ?w] h0 h1 h2 h3
  show ?thesis by blast
qed

text \<open>
  Claim C2, as the code has it. When none of the \<open>n\<close> polls observes a terminal
  status, the loop issues exactly \<open>n\<close> status requests and then ends normally: it
  raises nothing, and the status it leaves behind is the last one observed, which is not
  terminal.
\<close>

theorem polling_exhausted_ends_normally:
  assumes "never_terminal e w sid dflt n"
  shows "poll_status e sid dflt secs n seen w =
           (Inr (if n = 0 then seen
                 else observed_status dflt
                        (instrument e (sent w @ replicate n (status_request e (client w) sid)))),
            w\<lparr>sent := sent w @ replicate n (status_request e (client w) sid),
              slept := slept w + n * secs\<rparr>)
         \<and> (0 < n \<longrightarrow>
              (\<exists>st. fst (poll_status e sid dflt secs n seen w) = Inr (Some st) \<and> \<not> is_terminal st))"
proof -
  let ?rq = "status_request e (client w) sid"
  note all = never_terminal_unfold [OF assms]
  have run: "poll_status e sid dflt secs n seen w =
           (Inr (if n = 0 then seen
                 else observed_status dflt (instrument e (sent w @ replicate n ?rq))),
            w\<lparr>sent := sent w @ replicate n ?rq, slept := slept w + n * secs\<rparr>)"
    by (rule poll_status_exhausted [OF all])
  have "\<exists>st. fst (poll_status e sid dflt secs n seen w) = Inr (Some st) \<and> \<not> is_terminal st"
    if "0 < n"
  proof -
    from that have "n - 1 < n" and "Suc (n - 1) = n" by simp_all
    with all obtain st where
      "observed_status dflt (instrument e (sent w @ replicate n ?rq)) = Some st"
      "\<not> is_terminal st"
      by metis
    moreover from that have
      "fst (poll_status e sid dflt secs n seen w) =
         Inr (observed_status dflt (instrument e (sent w @ replicate n ?rq)))"
      by (simp add: run)
    ultimately show ?thesis by simp
  qed
  with run show ?thesis by blast
qed

text \<open>
  Twenty iterations against an instrument that always reports pending.
\<close>

theorem polling_exhausted_ends_normally_witness:
  "poll_status (scripted [] (ok_json (PDict [(''status'', PStr ''pending'')])))
     (PStr ''run-42'') (PStr ''unknown'') 10 20 None (fresh_world lab_client)
   = (Inr (Some (PStr ''pending'')),
      (fresh_world lab_client)
        \<lparr>sent := replicate 20 (status_request
                     (scripted [] (ok_json (PDict [(''status'', PStr ''pending'')])))
                     lab_client (PStr ''run-42'')),
         slept := 200\<rparr>)"
proof -
  let ?e = "scripted [] (ok_json (PDict [(''status'', PStr ''pending'')]))"
  let ?w = "fresh_world lab_client"
  have h: "never_terminal ?e ?w (PStr ''run-42'') (PStr ''unknown'') 20"
    by (rule pending_forever)
  from polling_exhausted_ends_normally [OF h, of 10 None]
  show ?thesis
    by (simp add: scripted_rest observed_ok_json fresh_world_def)
qed

text \<open>
  Claim C2 as stated asks for an error after five polls that never see a terminal
  status. The loop ends without one: its result is a normal return, after five requests.
\<close>

theorem no_poll_timeout_counterexample:
  "fst (poll_status (scripted [] (ok_json (PDict [(''status'', PStr ''pending'')])))
          (PStr ''run-42'') (PStr ''unknown'') 10 5 None (fresh_world lab_client))
     = Inr (Some (PStr ''pending''))
   \<and> \<not> isl (fst (poll_status (scripted [] (ok_json (PDict [(''status'', PStr ''pending'')])))
          (PStr ''run-42'') (PStr ''unknown'') 10 5 None (fresh_world lab_client)))
   \<and> length (sent (snd (poll_status (scripted [] (ok_json (PDict [(''status'', PStr ''pending'')])))
          (PStr ''run-42'') (PStr ''unknown'') 10 5 None (fresh_world lab_client)))) = 5"
proof -
  let ?e = "scripted [] (ok_json (PDict [(''status'', PStr ''pending'')]))"
  let ?w = "fresh_world lab_client"
  have "poll_status ?e (PStr ''run-42'') (PStr ''unknown'') 10 5 None ?w =
          (Inr (Some (PStr ''pending'')),
           ?w\<lparr>sent := sent ?w @ replicate 5 (status_request ?e (client ?w) (PStr ''run-42'')),
              slept := slept ?w + 5 * 10\<rparr>)"
    using poll_status_exhausted [OF never_terminal_unfold [OF pending_forever],
            where n = 5 and w = ?w and sid = "PStr ''run-42''" and dflt = "PStr ''unknown''"
              and secs = 10 and seen = None]
    by (simp add: scripted_rest observed_ok_json)
  then show ?thesis by (simp add: fresh_world_def)
qed

section \<open>Session ids\<close>

lemma post_transfer_session_parsed:
  assumes "parsed_reply (instrument e (sent w @ [session_post e w transfers])) = Some v"
  shows "post_transfer_session e transfers w =
           (Inr v, w\<lparr>clock_reads := Suc (Suc (clock_reads w)),
                     sent := sent w @ [session_post e w transfers]\<rparr>)"
  using assms session_data_serializable [of transfers "now e (clock_reads w)" "now e (Suc (clock_reads w))"]
  by (auto simp: post_transfer_session_call api_call_unfold parsed_reply_def session_post_def
        split: outcome.splits payload.splits if_splits)

lemma example_2_is_post:
  "example_2_serial_dilution_protocol e = post_transfer_session e example_2_transfers"
  by (simp add: example_2_serial_dilution_protocol_def example_2_transfers_def
        get_transfer_protocol_def TRANSFER_PROTOCOLS_def)

lemma monitored_requests:
  assumes "f = (\<lambda>session_id.
             and_then (start_transfer_session e session_id) (\<lambda>start_response.
             and_then (poll_status e session_id dflt secs n None) (\<lambda>final_status. returns (g session_id))))"
  shows "\<exists>k\<le>n. sent (snd (f sid w)) =
           sent w @ start_request e (client w) sid # replicate k (status_request e (client w) sid)"
proof -
  let ?w1 = "w\<lparr>sent := sent w @ [start_request e (client w) sid]\<rparr>"
  obtain res where start: "start_transfer_session e sid w = (res, ?w1)"
    using start_transfer_session_snd [of e sid w] by (metis prod.collapse)
  show ?thesis
  proof (cases res)
    case (Inl err)
    then have "f sid w = (Inl err, ?w1)"
      by (simp add: assms and_then_def start)
    then show ?thesis by (intro exI [of _ 0]) simp
  next
    case (Inr v)
    obtain k where k: "k \<le> n"
      "sent (snd (poll_status e sid dflt secs n None ?w1)) =
         sent ?w1 @ replicate k (status_request e (client ?w1) sid)"
      using poll_status_requests [of n e sid dflt secs None ?w1] by blast
    have "snd (f sid w) = snd (poll_status e sid dflt secs n None ?w1)"
      by (cases "poll_status e sid dflt secs n None ?w1")
         (auto simp: assms and_then_def start Inr returns_def split: sum.splits)
    with k show ?thesis by (intro exI [of _ k]) simp
  qed
qed

lemma start_and_monitor_requests:
  assumes "map_of kvs ''session_id'' = Some sid" and "py_truthy sid"
  shows "\<exists>k\<le>20. sent (snd (start_and_monitor e (PDict kvs) w)) =
           sent w @ start_request e (client w) sid # replicate k (status_request e (client w) sid)"
proof -
  have "start_and_monitor e (PDict kvs) w =
          (\<lambda>session_id.
             and_then (start_transfer_session e session_id) (\<lambda>start_response.
             and_then (poll_status e session_id (PStr ''unknown'') 10 20 None) (\<lambda>final_status.
               returns session_id))) sid w"
    using assms by (simp add: start_and_monitor_def and_then_def dict_get_def)
  then show ?thesis
    using monitored_requests [OF refl, where n = 20 and e = e and dflt = "PStr ''unknown''"
        and secs = 10 and g = "\<lambda>s. s" and sid = sid and w = w] by simp
qed

lemma main_start_and_monitor_requests:
  assumes "map_of kvs ''session_id'' = Some sid" and "py_truthy sid"
  shows "\<exists>k\<le>10. sent (snd (main_start_and_monitor e (PDict kvs) w)) =
           sent w @ start_request e (client w) sid # replicate k (status_request e (client w) sid)"
proof -
  have "main_start_and_monitor e (PDict kvs) w =
          (\<lambda>session_id.
             and_then (start_transfer_session e session_id) (\<lambda>start_response.
             and_then (poll_status e session_id PNone 5 10 None) (\<lambda>final_status.
               returns ()))) sid w"
    using assms by (simp add: main_start_and_monitor_def and_then_def dict_get_def)
  then show ?thesis
    using monitored_requests [OF refl, where n = 10 and e = e and dflt = PNone
        and secs = 5 and g = "\<lambda>s. ()" and sid = sid and w = w] by simp
qed


lemma suffix_clash:
  "a @ ''/start'' \<noteq> b @ ''/cancel''" "a @ ''/start'' \<noteq> b @ ''/status''"
  "a @ ''/status'' \<noteq> b @ ''/cancel''"
  by (auto dest: arg_cong [where f = last])

lemma requests_of_other_id:
  assumes "py_format e sid \<noteq> h"
  shows "start_request e c sid \<notin>
           {start_request e c (PStr h), status_request e c (PStr h), cancel_request e c (PStr h)}"
    and "status_request e c sid \<notin>
           {start_request e c (PStr h), status_request e c (PStr h), cancel_request e c (PStr h)}"
  using assms suffix_clash [of "py_format e sid" h] suffix_clash [of h "py_format e sid"]
  by (auto simp: start_request_def status_request_def cancel_request_def build_request_def
        py_format_def)



text \<open>
  Claim C6. When the response to the session submission carries a truthy
  \<^verbatim>\<open>session_id\<close>, every request that either driver issues after the submission is the
  start request or a status request built from that id (first the start, then at most
  20, respectively 10, status polls); no cancel request is issued. When the id differs
  from the hint that the client generated, none of these requests is a start, status or
  cancel request for the hint.
\<close>

theorem response_session_id_used:
  "(parsed_reply (instrument e (sent w @ [session_post e w example_2_transfers])) = Some (PDict kvs)
      \<and> map_of kvs ''session_id'' = Some sid \<and> py_truthy sid
    \<longrightarrow> (\<exists>k\<le>20. sent (snd (run_transfer_steps e w)) =
            sent w @ session_post e w example_2_transfers # start_request e (client w) sid
              # replicate k (status_request e (client w) sid)))
   \<and> (parsed_reply (instrument e (sent w @ [session_post e w main_transfers])) = Some (PDict kvs)
      \<and> map_of kvs ''session_id'' = Some sid \<and> py_truthy sid
    \<longrightarrow> (\<exists>k\<le>10. sent (snd (main_transfer_steps e w)) =
            sent w @ session_post e w main_transfers # start_request e (client w) sid
              # replicate k (status_request e (client w) sid)))
   \<and> (py_format e sid \<noteq> session_id_hint e w
    \<longrightarrow> start_request e (client w) sid \<notin>
            {start_request e (client w) (PStr (session_id_hint e w)),
             status_request e (client w) (PStr (session_id_hint e w)),
             cancel_request e (client w) (PStr (session_id_hint e w))}
        \<and> status_request e (client w) sid \<notin>
            {start_request e (client w) (PStr (session_id_hint e w)),
             status_request e (client w) (PStr (session_id_hint e w)),
             cancel_request e (client w) (PStr (session_id_hint e w))})"
proof (intro conjI impI)
  assume h: "parsed_reply (instrument e (sent w @ [session_post e w example_2_transfers])) = Some (PDict kvs)
      \<and> map_of kvs ''session_id'' = Some sid \<and> py_truthy sid"
  let ?w1 = "w\<lparr>clock_reads := Suc (Suc (clock_reads w)),
               sent := sent w @ [session_post e w example_2_transfers]\<rparr>"
  have "run_transfer_steps e w = start_and_monitor e (PDict kvs) ?w1"
    using h by (simp add: run_transfer_steps_def example_2_is_post and_then_def
                  post_transfer_session_parsed)
  moreover from h start_and_monitor_requests [of kvs sid e ?w1]
  obtain k where "k \<le> 20"
    "sent (snd (start_and_monitor e (PDict kvs) ?w1)) =
       sent ?w1 @ start_request e (client ?w1) sid # replicate k (status_request e (client ?w1) sid)"
    by blast
  ultimately show "\<exists>k\<le>20. sent (snd (run_transfer_steps e w)) =
            sent w @ session_post e w example_2_transfers # start_request e (client w) sid
              # replicate k (status_request e (client w) sid)"
    by (intro exI [of _ k]) simp
next
  assume h: "parsed_reply (instrument e (sent w @ [session_post e w main_transfers])) = Some (PDict kvs)
      \<and> map_of kvs ''session_id'' = Some sid \<and> py_truthy sid"
  let ?w1 = "w\<lparr>clock_reads := Suc (Suc (clock_reads w)),
               sent := sent w @ [session_post e w main_transfers]\<rparr>"
  have "main_transfer_steps e w = main_start_and_monitor e (PDict kvs) ?w1"
    using h by (simp add: main_transfer_steps_def and_then_def post_transfer_session_parsed)
  moreover from h main_start_and_monitor_requests [of kvs sid e ?w1]
  obtain k where "k \<le> 10"
    "sent (snd (main_start_and_monitor e (PDict kvs) ?w1)) =
       sent ?w1 @ start_request e (client ?w1) sid # replicate k (status_request e (client ?w1) sid)"
    by blast
  ultimately show "\<exists>k\<le>10. sent (snd (main_transfer_steps e w)) =
            sent w @ session_post e w main_transfers # start_request e (client w) sid
              # replicate k (status_request e (client w) sid)"
    by (intro exI [of _ k]) simp
next
  assume "py_format e sid \<noteq> session_id_hint e w"
  then show "start_request e (client w) sid \<notin>
            {start_request e (client w) (PStr (session_id_hint e w)),
             status_request e (client w) (PStr (session_id_hint e w)),
             cancel_request e (client w) (PStr (session_id_hint e w))}"
    by (rule requests_of_other_id(1))
next
  assume "py_format e sid \<noteq> session_id_hint e w"
  then show "status_request e (client w) sid \<notin>
            {start_request e (client w) (PStr (session_id_hint e w)),
             status_request e (client w) (PStr (session_id_hint e w)),
             cancel_request e (client w) (PStr (session_id_hint e w))}"
    by (rule requests_of_other_id(2))
qed

text \<open>
  The instrument assigns the id \<^verbatim>\<open>run-42\<close> while the hint is
  \<^verbatim>\<open>session_1700000000\<close>.
\<close>

theorem response_session_id_used_witness:
  "(\<exists>k\<le>20. sent (snd (run_transfer_steps
        (scripted [ok_json (PDict [(''session_id'', PStr ''run-42'')])] NoResponse)
        (fresh_world lab_client))) =
      sent (fresh_world lab_client) @
      session_post (scripted [ok_json (PDict [(''session_id'', PStr ''run-42'')])] NoResponse)
        (fresh_world lab_client) example_2_transfers
      # start_request (scripted [ok_json (PDict [(''session_id'', PStr ''run-42'')])] NoResponse)
          (client (fresh_world lab_client)) (PStr ''run-42'')
      # replicate k
          (status_request (scripted [ok_json (PDict [(''session_id'', PStr ''run-42'')])] NoResponse)
             (client (fresh_world lab_client)) (PStr ''run-42'')))
   \<and> (\<exists>k\<le>10. sent (snd (main_transfer_steps
        (scripted [ok_json (PDict [(''session_id'', PStr ''run-42'')])] NoResponse)
        (fresh_world lab_client))) =
      sent (fresh_world lab_client) @
      session_post (scripted [ok_json (PDict [(''session_id'', PStr ''run-42'')])] NoResponse)
        (fresh_world lab_client) main_transfers
      # start_request (scripted [ok_json (PDict [(''session_id'', PStr ''run-42'')])] NoResponse)
          (client (fresh_world lab_client)) (PStr ''run-42'')
      # replicate k
          (status_request (scripted [ok_json (PDict [(''session_id'', PStr ''run-42'')])] NoResponse)
             (client (fresh_world lab_client)) (PStr ''run-42'')))
   \<and> session_id_hint (scripted [ok_json (PDict [(''session_id'', PStr ''run-42'')])] NoResponse)
        (fresh_world lab_client) = ''session_1700000000''
   \<and> start_request (scripted [ok_json (PDict [(''session_id'', PStr ''run-42'')])] NoResponse)
        (client (fresh_world lab_client)) (PStr ''run-42'')
       \<noteq> start_request (scripted [ok_json (PDict [(''session_id'', PStr ''run-42'')])] NoResponse)
           (client (fresh_world lab_client)) (PStr ''session_1700000000'')"
proof -
  let ?e = "scripted [ok_json (PDict [(''session_id'', PStr ''run-42'')])] NoResponse"
  let ?w = "fresh_world lab_client"
  let ?kvs = "[(''session_id'', PStr ''run-42'')]"
  have h1: "parsed_reply (instrument ?e (sent ?w @ [session_post ?e ?w example_2_transfers]))
              = Some (PDict ?kvs)
            \<and> map_of ?kvs ''session_id'' = Some (PStr ''run-42'') \<and> py_truthy (PStr ''run-42'')"
    by (simp add: scripted_nth parsed_ok_json fresh_world_def)
  have h2: "parsed_reply (instrument ?e (sent ?w @ [session_post ?e ?w main_transfers]))
              = Some (PDict ?kvs)
            \<and> map_of ?kvs ''session_id'' = Some (PStr ''run-42'') \<and> py_truthy (PStr ''run-42'')"
    by (simp add: scripted_nth parsed_ok_json fresh_world_def)
  have hint: "session_id_hint ?e ?w = ''session_1700000000''"
    by (simp add: session_id_hint_def scripted_def fresh_world_def str_int_def py_int_of_float_def)
  have h3: "py_format ?e (PStr ''run-42'') \<noteq> session_id_hint ?e ?w"
    by (simp add: hint py_format_def)
  from response_session_id_used [of ?e ?w ?kvs "PStr ''run-42''"] h1 h2 h3 hint
  show ?thesis by auto
qed

end
